theory Spec2Isabelle
  imports Complex_Main
begin

section \<open>JavaScript values used by the payment code\<close>

text \<open>
  Exceptions are values. Every \<^verbatim>\<open>throw\<close> the modelled code can meet is one of these,
  carrying its \<^verbatim>\<open>message\<close>. A Mongoose \<^verbatim>\<open>ValidationError\<close> carries the paths that
  failed; its message starts with the model's name and "validation failed".
\<close>

datatype js_error =
    TypeError string
  | FetchError string
  | ReplyError string
  | ValidationError "string list"
  | OtherError string

fun message :: "js_error \<Rightarrow> string" where
  "message (TypeError m) = m"
| "message (FetchError m) = m"
| "message (ReplyError m) = m"
| "message (ValidationError paths) = ''Order validation failed''"
| "message (OtherError m) = m"

text \<open>
  Request fields that the code only tests for truthiness and then splices into a template
  string are modelled as strings; \<^verbatim>\<open>undefined\<close>, \<^verbatim>\<open>null\<close> and the empty string are
  all falsy and take the same branch, so all three are the empty string here.
\<close>

definition falsy :: "string \<Rightarrow> bool" where
  "falsy s = (s = [])"

text \<open>\<^verbatim>\<open>Number.prototype.toString()\<close> on a non-negative integer: decimal digits.\<close>

definition digit :: "nat \<Rightarrow> char" where
  "digit d = char_of (48 + d)"

fun dec :: "nat \<Rightarrow> string" where
  "dec n = (if n < 10 then [digit n] else dec (n div 10) @ [digit (n mod 10)])"

declare dec.simps [simp del]

text \<open>
  \<^verbatim>\<open>String.prototype.toLowerCase()\<close> on the ASCII range, which is where hexadecimal
  addresses live; other bytes are left as they are.
\<close>

definition toLowerCase_char :: "char \<Rightarrow> char" where
  "toLowerCase_char c =
     (let n = (of_char c :: nat) in if 65 \<le> n \<and> n \<le> 90 then char_of (n + 32) else c)"

definition toLowerCase :: "string \<Rightarrow> string" where
  "toLowerCase s = map toLowerCase_char s"

text \<open>The regular expression \<^verbatim>\<open>/^0x([A-Fa-f0-9]{64})$/\<close>.\<close>

definition is_hex :: "char \<Rightarrow> bool" where
  "is_hex c =
     (let n = (of_char c :: nat) in
        (48 \<le> n \<and> n \<le> 57) \<or> (65 \<le> n \<and> n \<le> 70) \<or> (97 \<le> n \<and> n \<le> 102))"

definition txHashRegex :: "string \<Rightarrow> bool" where
  "txHashRegex s =
     (case s of
        a # b # rest \<Rightarrow> a = CHR ''0'' \<and> b = CHR ''x'' \<and> length rest = 64 \<and> list_all is_hex rest
      | _ \<Rightarrow> False)"

section \<open>The cache client (lib/redis.js)\<close>

text \<open>
  Three clients can end up behind the exported \<^verbatim>\<open>redis\<close>: the Upstash REST client
  (when REST credentials are configured), an ioredis connection, and the in-memory
  \<^verbatim>\<open>Map\<close> fallback. The store maps a key to its value and, when it has one, the absolute
  time in milliseconds at which it expires.
\<close>

datatype client = UpstashRedisRestClient | IoRedis | MemoryMock

datatype redis_value = RStr string | RInt int

type_synonym entry = "redis_value \<times> nat option"

record redis =
  client :: client
  reachable :: bool
  entries :: "string \<rightharpoonup> entry"

text \<open>An \<^verbatim>\<open>'EX'\<close> argument of \<^verbatim>\<open>set\<close>: seconds to live, when present.\<close>

type_synonym ex_arg = "nat option"

subsection \<open>The Redis server (external): GET, SET .. EX, INCR, EXPIRE\<close>

text \<open>
  The server is not part of the repository. Its four commands follow the Redis command
  reference: a key past its expiry time reads as absent; SET replaces value and expiry;
  INCR creates a missing key at 1 without expiry, keeps the expiry of an existing
  integer, and refuses a value that is not an integer; EXPIRE sets the expiry of an
  existing key. Clock readings are milliseconds (\<^verbatim>\<open>Date.now()\<close>), time-to-live
  arguments are seconds.
\<close>

definition live :: "nat \<Rightarrow> entry \<Rightarrow> bool" where
  "live now e = (case snd e of None \<Rightarrow> True | Some t \<Rightarrow> now < t)"

definition server_lookup :: "(string \<rightharpoonup> entry) \<Rightarrow> nat \<Rightarrow> string \<Rightarrow> entry option" where
  "server_lookup m now k =
     (case m k of None \<Rightarrow> None | Some e \<Rightarrow> if live now e then Some e else None)"

definition server_get :: "(string \<rightharpoonup> entry) \<Rightarrow> nat \<Rightarrow> string \<Rightarrow> redis_value option" where
  "server_get m now k = map_option fst (server_lookup m now k)"

definition server_set ::
  "(string \<rightharpoonup> entry) \<Rightarrow> nat \<Rightarrow> string \<Rightarrow> redis_value \<Rightarrow> ex_arg \<Rightarrow> (string \<rightharpoonup> entry)" where
  "server_set m now k v ex = m(k \<mapsto> (v, map_option (\<lambda>s. now + 1000 * s) ex))"

definition server_incr ::
  "(string \<rightharpoonup> entry) \<Rightarrow> nat \<Rightarrow> string \<Rightarrow> js_error + (int \<times> (string \<rightharpoonup> entry))" where
  "server_incr m now k =
     (case server_lookup m now k of
        None \<Rightarrow> Inr (1, m(k \<mapsto> (RInt 1, None)))
      | Some (RInt n, e) \<Rightarrow> Inr (n + 1, m(k \<mapsto> (RInt (n + 1), e)))
      | Some (RStr s, e) \<Rightarrow> Inl (ReplyError ''ERR value is not an integer or out of range''))"

definition server_expire ::
  "(string \<rightharpoonup> entry) \<Rightarrow> nat \<Rightarrow> string \<Rightarrow> nat \<Rightarrow> int \<times> (string \<rightharpoonup> entry)" where
  "server_expire m now k s =
     (case server_lookup m now k of
        None \<Rightarrow> (0, m)
      | Some (v, e) \<Rightarrow> (1, m(k \<mapsto> (v, Some (now + 1000 * s)))))"

subsection \<open>The methods each client defines\<close>

text \<open>
  \<^verbatim>\<open>UpstashRedisRestClient\<close> defines \<^verbatim>\<open>get\<close>, \<^verbatim>\<open>set\<close>, \<^verbatim>\<open>del\<close> and \<^verbatim>\<open>ping\<close>; each is
  one HTTP request, which throws when the endpoint cannot be reached or answers with an
  error status. Its \<^verbatim>\<open>set\<close> forwards an \<^verbatim>\<open>'EX'\<close> argument as \<^verbatim>\<open>ex\<close>.
\<close>

definition upstash_get :: "redis \<Rightarrow> nat \<Rightarrow> string \<Rightarrow> js_error + redis_value option" where
  "upstash_get r now k =
     (if reachable r then Inr (server_get (entries r) now k)
      else Inl (FetchError ''Redis REST API error''))"

definition upstash_set ::
  "redis \<Rightarrow> nat \<Rightarrow> string \<Rightarrow> redis_value \<Rightarrow> ex_arg \<Rightarrow> js_error + redis" where
  "upstash_set r now k v ex =
     (if reachable r then Inr (r\<lparr>entries := server_set (entries r) now k v ex\<rparr>)
      else Inl (FetchError ''Redis REST API error''))"

text \<open>ioredis sends each command to the server and rejects when the connection is down.\<close>

definition ioredis_get :: "redis \<Rightarrow> nat \<Rightarrow> string \<Rightarrow> js_error + redis_value option" where
  "ioredis_get r now k =
     (if reachable r then Inr (server_get (entries r) now k)
      else Inl (OtherError ''Connection is closed.''))"

definition ioredis_set ::
  "redis \<Rightarrow> nat \<Rightarrow> string \<Rightarrow> redis_value \<Rightarrow> ex_arg \<Rightarrow> js_error + redis" where
  "ioredis_set r now k v ex =
     (if reachable r then Inr (r\<lparr>entries := server_set (entries r) now k v ex\<rparr>)
      else Inl (OtherError ''Connection is closed.''))"

definition ioredis_incr :: "redis \<Rightarrow> nat \<Rightarrow> string \<Rightarrow> js_error + (int \<times> redis)" where
  "ioredis_incr r now k =
     (if reachable r then
        (case server_incr (entries r) now k of
           Inl e \<Rightarrow> Inl e
         | Inr (n, m) \<Rightarrow> Inr (n, r\<lparr>entries := m\<rparr>))
      else Inl (OtherError ''Connection is closed.''))"

definition ioredis_expire :: "redis \<Rightarrow> nat \<Rightarrow> string \<Rightarrow> nat \<Rightarrow> js_error + redis" where
  "ioredis_expire r now k s =
     (if reachable r then Inr (r\<lparr>entries := snd (server_expire (entries r) now k s)\<rparr>)
      else Inl (OtherError ''Connection is closed.''))"

text \<open>
  The in-memory fallback: \<^verbatim>\<open>get: async (key) => redisClient.cache.get(key)\<close> and
  \<^verbatim>\<open>set: async (key, value) => redisClient.cache.set(key, value)\<close>. Its \<^verbatim>\<open>set\<close> takes
  two parameters, so the \<^verbatim>\<open>'EX', seconds\<close> arguments are dropped, and \<^verbatim>\<open>get\<close> never
  looks at a clock.
\<close>

definition mock_get :: "redis \<Rightarrow> string \<Rightarrow> js_error + redis_value option" where
  "mock_get r k = Inr (map_option fst (entries r k))"

definition mock_set :: "redis \<Rightarrow> string \<Rightarrow> redis_value \<Rightarrow> js_error + redis" where
  "mock_set r k v = Inr (r\<lparr>entries := (entries r)(k \<mapsto> (v, None))\<rparr>)"

subsection \<open>Calls on the exported client\<close>

text \<open>Calling a method the client object does not have throws a \<^verbatim>\<open>TypeError\<close>.\<close>

definition redis_get :: "redis \<Rightarrow> nat \<Rightarrow> string \<Rightarrow> js_error + redis_value option" where
  "redis_get r now k =
     (case client r of
        UpstashRedisRestClient \<Rightarrow> upstash_get r now k
      | IoRedis \<Rightarrow> ioredis_get r now k
      | MemoryMock \<Rightarrow> mock_get r k)"

definition redis_set ::
  "redis \<Rightarrow> nat \<Rightarrow> string \<Rightarrow> redis_value \<Rightarrow> ex_arg \<Rightarrow> js_error + redis" where
  "redis_set r now k v ex =
     (case client r of
        UpstashRedisRestClient \<Rightarrow> upstash_set r now k v ex
      | IoRedis \<Rightarrow> ioredis_set r now k v ex
      | MemoryMock \<Rightarrow> mock_set r k v)"

definition redis_incr :: "redis \<Rightarrow> nat \<Rightarrow> string \<Rightarrow> js_error + (int \<times> redis)" where
  "redis_incr r now k =
     (case client r of
        UpstashRedisRestClient \<Rightarrow> Inl (TypeError ''redis.incr is not a function'')
      | IoRedis \<Rightarrow> ioredis_incr r now k
      | MemoryMock \<Rightarrow> Inl (TypeError ''redis.incr is not a function''))"

definition redis_expire :: "redis \<Rightarrow> nat \<Rightarrow> string \<Rightarrow> nat \<Rightarrow> js_error + redis" where
  "redis_expire r now k s =
     (case client r of
        UpstashRedisRestClient \<Rightarrow> Inl (TypeError ''redis.expire is not a function'')
      | IoRedis \<Rightarrow> ioredis_expire r now k s
      | MemoryMock \<Rightarrow> Inl (TypeError ''redis.expire is not a function''))"

text \<open>
  Truthiness of what \<^verbatim>\<open>get\<close> resolves to: \<^verbatim>\<open>null\<close>/\<^verbatim>\<open>undefined\<close> and the empty
  string are falsy; an integer comes back as its non-empty decimal string.
\<close>

fun truthy :: "redis_value option \<Rightarrow> bool" where
  "truthy None = False"
| "truthy (Some (RStr s)) = (s \<noteq> [])"
| "truthy (Some (RInt n)) = True"

section \<open>Requests and responses\<close>

record product =
  product_id :: string
  name :: string
  price :: real
  quantity :: nat

text \<open>
  \<^verbatim>\<open>req.body\<close>, and \<^verbatim>\<open>req.user\<close> as the authentication middleware left it.
  \<open>products = None\<close> is a missing value or one that is not an array; \<open>amount = None\<close>
  is a missing value or one that is not a number.
\<close>

record request =
  products :: "product list option"
  paymentId :: string
  walletAddress :: string
  transactionHash :: string
  amount :: "real option"
  user :: "string option"

text \<open>
  \<^verbatim>\<open>res.status(..).json(..)\<close>. An error body has \<^verbatim>\<open>error\<close> and, where the code sets
  them, \<^verbatim>\<open>retryAfter\<close>, \<^verbatim>\<open>retryable\<close> and \<^verbatim>\<open>details\<close>. The success body is
  \<^verbatim>\<open>{success: true, order: {id, amount, status: 'completed', paymentMethod: 'crypto'}}\<close>
  with status 200.
\<close>

datatype response =
    ErrorJson (status: nat) (error: string) (retryAfter: "nat option")
      (retryable: "bool option") (details: "string option")
  | OrderJson (order_id: string) (order_amount: "real option")

datatype mw_result = Respond response | Next

section \<open>validateCryptoPayment (middleware/payment.middleware.js)\<close>

definition invalid_products :: "product list option \<Rightarrow> bool" where
  "invalid_products ps = (case ps of None \<Rightarrow> True | Some xs \<Rightarrow> xs = [])"

text \<open>\<^verbatim>\<open>!amount || isNaN(amount) || amount <= 0\<close>\<close>

definition invalid_amount :: "real option \<Rightarrow> bool" where
  "invalid_amount a = (case a of None \<Rightarrow> True | Some x \<Rightarrow> x = 0 \<or> x \<le> 0)"

definition processing_key :: "string \<Rightarrow> string" where
  "processing_key h = ''tx-processing:'' @ h"

definition wallet_key :: "string \<Rightarrow> string" where
  "wallet_key w = ''wallet-requests:'' @ w"

definition already_being_processed :: response where
  "already_being_processed =
     ErrorJson 429 ''Transaction is already being processed'' (Some 5) None None"

definition too_many_requests :: response where
  "too_many_requests =
     ErrorJson 429 ''Too many payment verification requests'' (Some 60) None None"

text \<open>
  The \<^verbatim>\<open>try\<close> block. Whatever a cache call throws lands in the \<^verbatim>\<open>catch\<close>, which logs
  and falls through to \<^verbatim>\<open>next()\<close>; writes made before the throw stay.
\<close>

definition cache_gate :: "request \<Rightarrow> nat \<Rightarrow> redis \<Rightarrow> mw_result \<times> redis" where
  "cache_gate req now r =
     (case redis_get r now (processing_key (transactionHash req)) of
        Inl e \<Rightarrow> (Next, r)
      | Inr cachedTx \<Rightarrow>
          if truthy cachedTx then (Respond already_being_processed, r)
          else
            (case redis_set r now (processing_key (transactionHash req)) (RStr (dec now)) (Some 300) of
               Inl e \<Rightarrow> (Next, r)
             | Inr r1 \<Rightarrow>
                 (case redis_incr r1 now (wallet_key (walletAddress req)) of
                    Inl e \<Rightarrow> (Next, r1)
                  | Inr (walletRequestCount, r2) \<Rightarrow>
                      (case (if walletRequestCount = 1
                             then redis_expire r2 now (wallet_key (walletAddress req)) 60
                             else Inr r2) of
                         Inl e \<Rightarrow> (Next, r2)
                       | Inr r3 \<Rightarrow>
                           if walletRequestCount > 10 then (Respond too_many_requests, r3)
                           else (Next, r3)))))"

text \<open>
  \<open>isAddress\<close> is \<^verbatim>\<open>ethers.isAddress\<close>, a library predicate taken as a parameter.
\<close>

definition validateCryptoPayment ::
  "(string \<Rightarrow> bool) \<Rightarrow> request \<Rightarrow> nat \<Rightarrow> redis \<Rightarrow> mw_result \<times> redis" where
  "validateCryptoPayment isAddress req now r =
     (if invalid_products (products req) then
        (Respond (ErrorJson 400 ''Invalid products data'' None None None), r)
      else if falsy (paymentId req) then
        (Respond (ErrorJson 400 ''Payment ID is required'' None None None), r)
      else if falsy (walletAddress req) then
        (Respond (ErrorJson 400 ''Wallet address is required'' None None None), r)
      else if falsy (transactionHash req) then
        (Respond (ErrorJson 400 ''Transaction hash is required'' None None None), r)
      else if invalid_amount (amount req) then
        (Respond (ErrorJson 400 ''Invalid amount'' None None None), r)
      else if \<not> isAddress (walletAddress req) then
        (Respond (ErrorJson 400 ''Invalid wallet address format'' None None None), r)
      else if \<not> txHashRegex (transactionHash req) then
        (Respond (ErrorJson 400 ''Invalid transaction hash format'' None None None), r)
      else cache_gate req now r)"

text \<open>The structural checks alone: what the spec calls a structurally valid request.\<close>

definition structurally_valid :: "(string \<Rightarrow> bool) \<Rightarrow> request \<Rightarrow> bool" where
  "structurally_valid isAddress req =
     (\<not> invalid_products (products req) \<and> \<not> falsy (paymentId req) \<and>
      \<not> falsy (walletAddress req) \<and> \<not> falsy (transactionHash req) \<and>
      \<not> invalid_amount (amount req) \<and> isAddress (walletAddress req) \<and>
      txHashRegex (transactionHash req))"

subsection \<open>The same block, one cache call at a time\<close>

text \<open>
  Every \<^verbatim>\<open>await\<close> in the \<^verbatim>\<open>try\<close> block hands control back to the event loop, and
  several server processes share one cache, so the cache calls of two requests can
  alternate. \<open>mw_step\<close> performs the next cache call of one request; the program counter
  says which call that is and carries \<^verbatim>\<open>walletRequestCount\<close> once it is known.
\<close>

datatype mw_pc = AwaitGet | AwaitSet | AwaitIncr | AwaitExpire int | Finished mw_result

definition limit_check :: "int \<Rightarrow> mw_result" where
  "limit_check walletRequestCount =
     (if walletRequestCount > 10 then Respond too_many_requests else Next)"

fun mw_step :: "request \<Rightarrow> nat \<Rightarrow> mw_pc \<Rightarrow> redis \<Rightarrow> mw_pc \<times> redis" where
  "mw_step req now AwaitGet r =
     (case redis_get r now (processing_key (transactionHash req)) of
        Inl e \<Rightarrow> (Finished Next, r)
      | Inr cachedTx \<Rightarrow>
          if truthy cachedTx then (Finished (Respond already_being_processed), r)
          else (AwaitSet, r))"
| "mw_step req now AwaitSet r =
     (case redis_set r now (processing_key (transactionHash req)) (RStr (dec now)) (Some 300) of
        Inl e \<Rightarrow> (Finished Next, r)
      | Inr r1 \<Rightarrow> (AwaitIncr, r1))"
| "mw_step req now AwaitIncr r =
     (case redis_incr r now (wallet_key (walletAddress req)) of
        Inl e \<Rightarrow> (Finished Next, r)
      | Inr (walletRequestCount, r2) \<Rightarrow>
          if walletRequestCount = 1 then (AwaitExpire walletRequestCount, r2)
          else (Finished (limit_check walletRequestCount), r2))"
| "mw_step req now (AwaitExpire walletRequestCount) r =
     (case redis_expire r now (wallet_key (walletAddress req)) 60 of
        Inl e \<Rightarrow> (Finished Next, r)
      | Inr r3 \<Rightarrow> (Finished (limit_check walletRequestCount), r3))"
| "mw_step req now (Finished res) r = (Finished res, r)"

text \<open>One request on its own: its (at most four) cache calls back to back.\<close>

definition mw_run :: "request \<Rightarrow> nat \<Rightarrow> redis \<Rightarrow> mw_pc \<times> redis" where
  "mw_run req now r =
     (let (p1, r1) = mw_step req now AwaitGet r;
          (p2, r2) = mw_step req now p1 r1;
          (p3, r3) = mw_step req now p2 r2
      in mw_step req now p3 r3)"

text \<open>
  Two requests in flight against one cache. The schedule says whose cache call runs next.
\<close>

datatype worker = First | Second

record in_flight =
  pc_first :: mw_pc
  pc_second :: mw_pc
  shared :: redis

fun interleave :: "request \<Rightarrow> request \<Rightarrow> nat \<Rightarrow> worker list \<Rightarrow> in_flight \<Rightarrow> in_flight" where
  "interleave reqA reqB now [] s = s"
| "interleave reqA reqB now (First # sched) s =
     (let (p, r) = mw_step reqA now (pc_first s) (shared s)
      in interleave reqA reqB now sched (s\<lparr>pc_first := p, shared := r\<rparr>))"
| "interleave reqA reqB now (Second # sched) s =
     (let (p, r) = mw_step reqB now (pc_second s) (shared s)
      in interleave reqA reqB now sched (s\<lparr>pc_second := p, shared := r\<rparr>))"

text \<open>Requests arriving one after another, each at its own clock reading.\<close>

fun serve_all ::
  "(string \<Rightarrow> bool) \<Rightarrow> (request \<times> nat) list \<Rightarrow> redis \<Rightarrow> mw_result list \<times> redis" where
  "serve_all isAddress [] r = ([], r)"
| "serve_all isAddress ((req, now) # rest) r =
     (let (res, r1) = validateCryptoPayment isAddress req now r;
          (more, r2) = serve_all isAddress rest r1
      in (res # more, r2))"

section \<open>verifyCryptoPayment (controllers/payment.controller.js)\<close>

subsection \<open>The ledger node and the settlement contract, as the controller sees them\<close>

text \<open>
  Each field is what the corresponding call resolves to during one verification; a
  rejected promise is \<open>Inl\<close>. \<open>receipt_status\<close> is the truthiness of \<^verbatim>\<open>receipt.status\<close>;
  \<open>to\<close> is \<open>None\<close> when the transaction's \<^verbatim>\<open>to\<close> is \<^verbatim>\<open>null\<close> (a contract creation).
  \<^verbatim>\<open>isBlockchainHealthy\<close> and \<^verbatim>\<open>getPaymentProcessorContract\<close> catch their own errors
  and resolve to a boolean and to a contract or \<^verbatim>\<open>null\<close>.
\<close>

record receipt =
  receipt_status :: bool

record transaction =
  to :: "string option"

record contract =
  address :: string
  getPaymentStatus :: "string \<Rightarrow> js_error + bool"

record chain =
  isBlockchainHealthy :: bool
  getTransactionReceipt :: "string \<Rightarrow> js_error + receipt option"
  getPaymentProcessorContract :: "contract option"
  getTransaction :: "string \<Rightarrow> js_error + transaction option"

subsection \<open>The order model (models/order.model.js) and the order store\<close>

text \<open>
  A document of the order schema, with the paths the handler touches. Mongoose keeps only
  the paths the schema declares (strict mode): of the object the handler passes to
  \<^verbatim>\<open>new Order(..)\<close>, \<^verbatim>\<open>amount\<close> and each item's \<^verbatim>\<open>productId\<close> and \<^verbatim>\<open>name\<close> are not
  paths of the schema and are dropped. A path nobody set is \<open>None\<close>.
\<close>

record order_item =
  item_product :: "string option"
  item_quantity :: "nat option"
  item_price :: "real option"

record order =
  order_oid :: string
  order_user :: "string option"
  order_products :: "order_item list"
  totalAmount :: "real option"
  order_status :: string
  paymentMethod :: string
  order_paymentId :: string
  order_transactionHash :: string
  order_walletAddress :: string

text \<open>
  The validators the schema declares, run by \<^verbatim>\<open>save()\<close> before anything is written:
  \<^verbatim>\<open>user\<close>, \<^verbatim>\<open>totalAmount\<close> and each item's \<^verbatim>\<open>product\<close>, \<^verbatim>\<open>quantity\<close> and \<^verbatim>\<open>price\<close>
  are required, \<^verbatim>\<open>quantity\<close> has \<^verbatim>\<open>min: 1\<close>, and \<^verbatim>\<open>status\<close> and \<^verbatim>\<open>paymentMethod\<close> are
  restricted to their \<^verbatim>\<open>enum\<close>. The result lists the paths that fail, an item's path
  with its index, as in \<^verbatim>\<open>products.0.product\<close>.
\<close>

definition status_enum :: "string list" where
  "status_enum = [''pending'', ''processing'', ''shipped'', ''delivered'', ''cancelled'']"

definition paymentMethod_enum :: "string list" where
  "paymentMethod_enum = [''stripe'', ''crypto'']"

definition validate_item :: "nat \<Rightarrow> order_item \<Rightarrow> string list" where
  "validate_item i item =
     (if item_product item = None then [''products.'' @ dec i @ ''.product''] else []) @
     (case item_quantity item of
        None \<Rightarrow> [''products.'' @ dec i @ ''.quantity'']
      | Some q \<Rightarrow> if q < 1 then [''products.'' @ dec i @ ''.quantity''] else []) @
     (if item_price item = None then [''products.'' @ dec i @ ''.price''] else [])"

definition validate_order :: "order \<Rightarrow> string list" where
  "validate_order doc =
     (if order_user doc = None then [''user''] else []) @
     concat (map (\<lambda>(i, item). validate_item i item) (enumerate 0 (order_products doc))) @
     (if totalAmount doc = None then [''totalAmount''] else []) @
     (if order_status doc \<in> set status_enum then [] else [''status'']) @
     (if paymentMethod doc \<in> set paymentMethod_enum then [] else [''paymentMethod''])"

text \<open>
  The database behind the model is external: \<open>fresh_id\<close> is the \<^verbatim>\<open>_id\<close> that
  \<^verbatim>\<open>new Order(..)\<close> assigns, \<open>write_error\<close> is what the write of a valid document is
  rejected with, if it is. \<^verbatim>\<open>order.save()\<close> rejects with a \<^verbatim>\<open>ValidationError\<close> when a
  validator fails and writes only otherwise.
\<close>

record order_store =
  fresh_id :: string
  write_error :: "js_error option"

definition save :: "order_store \<Rightarrow> order \<Rightarrow> js_error option" where
  "save db doc =
     (if validate_order doc \<noteq> [] then Some (ValidationError (validate_order doc))
      else write_error db)"

text \<open>
  The world a request runs in: the cache, the orders the store holds, and every document
  on which \<^verbatim>\<open>save()\<close> has been called, accepted or not.
\<close>

record world =
  cache :: redis
  orders :: "order list"
  save_calls :: "order list"

subsection \<open>The handler\<close>

definition tx_key :: "string \<Rightarrow> string" where
  "tx_key h = ''tx:'' @ h"

text \<open>
  \<^verbatim>\<open>JSON.stringify({orderId: order._id.toString(), timestamp: Date.now()})\<close>
\<close>

definition processed_record :: "string \<Rightarrow> nat \<Rightarrow> string" where
  \<open>processed_record oid now =
     ''{"orderId":"'' @ oid @ ''","timestamp":'' @ dec now @ ''}''\<close>

text \<open>
  \<^verbatim>\<open>new Order({products: products.map(..), paymentMethod: 'crypto', paymentId,
  transactionHash, walletAddress, amount, user: req.user ? req.user._id : null,
  status: 'completed'})\<close>: each item is given \<^verbatim>\<open>productId\<close>, \<^verbatim>\<open>name\<close>, \<^verbatim>\<open>price\<close> and
  \<^verbatim>\<open>quantity\<close>, so its \<^verbatim>\<open>product\<close> stays unset, and so does \<^verbatim>\<open>totalAmount\<close>.
\<close>

definition new_Order :: "order_store \<Rightarrow> request \<Rightarrow> product list \<Rightarrow> order" where
  "new_Order db req ps =
     \<lparr>order_oid = fresh_id db,
      order_user = user req,
      order_products =
        map (\<lambda>p. \<lparr>item_product = None, item_quantity = Some (quantity p),
                  item_price = Some (price p)\<rparr>) ps,
      totalAmount = None,
      order_status = ''completed'',
      paymentMethod = ''crypto'',
      order_paymentId = paymentId req,
      order_transactionHash = transactionHash req,
      order_walletAddress = walletAddress req\<rparr>"

definition services_unavailable :: response where
  "services_unavailable =
     ErrorJson 503 ''Blockchain services temporarily unavailable'' (Some 60) (Some True) None"

text \<open>The inner \<^verbatim>\<open>catch (blockchainError)\<close> and the outer \<^verbatim>\<open>catch (error)\<close>.\<close>

definition blockchain_catch :: "js_error \<Rightarrow> response" where
  "blockchain_catch e =
     ErrorJson 500 ''Error verifying blockchain transaction'' None (Some True) (Some (message e))"

definition outer_catch :: "js_error \<Rightarrow> response" where
  "outer_catch e =
     ErrorJson 500 ''An error occurred while verifying crypto payment'' None None (Some (message e))"

definition null_toLowerCase :: js_error where
  "null_toLowerCase = TypeError ''Cannot read properties of null (reading 'toLowerCase')''"

text \<open>
  From \<^verbatim>\<open>order.save()\<close> on: the order is persisted first, then the processed record is
  written with \<^verbatim>\<open>'EX', 60 * 60 * 24 * 7\<close>. Both calls sit inside the inner \<^verbatim>\<open>try\<close>,
  so a rejected \<^verbatim>\<open>save()\<close> is answered by the inner \<^verbatim>\<open>catch\<close> and the record is not
  written.
\<close>

definition create_order ::
  "order_store \<Rightarrow> request \<Rightarrow> product list \<Rightarrow> nat \<Rightarrow> world \<Rightarrow> response \<times> world" where
  "create_order db req ps now w =
     (let order = new_Order db req ps;
          w0 = w\<lparr>save_calls := save_calls w @ [order]\<rparr> in
      case save db order of
        Some e \<Rightarrow> (blockchain_catch e, w0)
      | None \<Rightarrow>
          (let w1 = w0\<lparr>orders := orders w0 @ [order]\<rparr> in
           case redis_set (cache w) now (tx_key (transactionHash req))
                  (RStr (processed_record (order_oid order) now)) (Some (60 * 60 * 24 * 7)) of
             Inl e \<Rightarrow> (blockchain_catch e, w1)
           | Inr c \<Rightarrow> (OrderJson (order_oid order) (amount req), w1\<lparr>cache := c\<rparr>)))"

text \<open>The inner \<^verbatim>\<open>try\<close> block, from the receipt to the recipient check.\<close>

definition verify_on_chain ::
  "chain \<Rightarrow> order_store \<Rightarrow> request \<Rightarrow> product list \<Rightarrow> nat \<Rightarrow> world \<Rightarrow> response \<times> world" where
  "verify_on_chain bc db req ps now w =
     (case getTransactionReceipt bc (transactionHash req) of
        Inl e \<Rightarrow> (blockchain_catch e, w)
      | Inr None \<Rightarrow>
          (ErrorJson 400 ''Invalid transaction or transaction failed'' None None None, w)
      | Inr (Some rcpt) \<Rightarrow>
          if \<not> receipt_status rcpt then
            (ErrorJson 400 ''Invalid transaction or transaction failed'' None None None, w)
          else
            (case getPaymentProcessorContract bc of
               None \<Rightarrow> (services_unavailable, w)
             | Some con \<Rightarrow>
                 (case getPaymentStatus con (paymentId req) of
                    Inl contractError \<Rightarrow>
                      (ErrorJson 500 ''Error verifying payment status on blockchain''
                         None (Some True) None, w)
                  | Inr paymentStatus \<Rightarrow>
                      if \<not> paymentStatus then
                        (ErrorJson 400 ''Payment not found or not processed on blockchain''
                           None None None, w)
                      else
                        (case getTransaction bc (transactionHash req) of
                           Inl e \<Rightarrow> (blockchain_catch e, w)
                         | Inr None \<Rightarrow>
                             (ErrorJson 400 ''Transaction not sent to payment processor contract''
                                None None None, w)
                         | Inr (Some tx) \<Rightarrow>
                             (case to tx of
                                None \<Rightarrow> (blockchain_catch null_toLowerCase, w)
                              | Some recipient \<Rightarrow>
                                  if toLowerCase recipient \<noteq> toLowerCase (address con) then
                                    (ErrorJson 400
                                       ''Transaction not sent to payment processor contract''
                                       None None None, w)
                                  else create_order db req ps now w)))))"

definition verifyCryptoPayment ::
  "chain \<Rightarrow> order_store \<Rightarrow> request \<Rightarrow> nat \<Rightarrow> world \<Rightarrow> response \<times> world" where
  "verifyCryptoPayment bc db req now w =
     (case products req of
        None \<Rightarrow> (ErrorJson 400 ''Invalid or empty products array'' None None None, w)
      | Some ps \<Rightarrow>
          if ps = [] then
            (ErrorJson 400 ''Invalid or empty products array'' None None None, w)
          else if falsy (paymentId req) \<or> falsy (walletAddress req) \<or> falsy (transactionHash req)
          then (ErrorJson 400 ''Missing required parameters'' None None None, w)
          else
            (case redis_get (cache w) now (tx_key (transactionHash req)) of
               Inl e \<Rightarrow> (outer_catch e, w)
             | Inr cachedTransaction \<Rightarrow>
                 if truthy cachedTransaction then
                   (ErrorJson 400 ''Transaction already processed'' None None None, w)
                 else if \<not> isBlockchainHealthy bc then (services_unavailable, w)
                 else verify_on_chain bc db req ps now w))"

subsection \<open>The route: middleware, then handler\<close>

text \<open>
  \<^verbatim>\<open>router.post('/verify-crypto-payment', protectedRoute, validateCryptoPayment,
  verifyCryptoPayment)\<close>, after authentication has let the request through.
\<close>

definition verify ::
  "(string \<Rightarrow> bool) \<Rightarrow> chain \<Rightarrow> order_store \<Rightarrow> request \<Rightarrow> nat \<Rightarrow> world \<Rightarrow> response \<times> world" where
  "verify isAddress bc db req now w =
     (case validateCryptoPayment isAddress req now (cache w) of
        (Respond res, c) \<Rightarrow> (res, w\<lparr>cache := c\<rparr>)
      | (Next, c) \<Rightarrow> verifyCryptoPayment bc db req now (w\<lparr>cache := c\<rparr>))"

subsection \<open>What the handler has seen before it creates an order\<close>

text \<open>
  The three ledger checks, read off the node's answers: the receipt exists and its status
  is truthy, the contract is available and reports a truthy status for the payment id, and
  the transaction exists with a recipient equal to the contract's address once both are
  lower-cased.
\<close>

definition settlement_verified :: "chain \<Rightarrow> request \<Rightarrow> bool" where
  "settlement_verified bc req =
     (case getTransactionReceipt bc (transactionHash req) of
        Inr (Some rcpt) \<Rightarrow>
          receipt_status rcpt \<and>
          (case getPaymentProcessorContract bc of
             Some con \<Rightarrow>
               (case getPaymentStatus con (paymentId req) of
                  Inr paymentStatus \<Rightarrow>
                    paymentStatus \<and>
                    (case getTransaction bc (transactionHash req) of
                       Inr (Some tx) \<Rightarrow>
                         (case to tx of
                            Some recipient \<Rightarrow> toLowerCase recipient = toLowerCase (address con)
                          | None \<Rightarrow> False)
                     | _ \<Rightarrow> False)
                | Inl e \<Rightarrow> False)
           | None \<Rightarrow> False)
      | _ \<Rightarrow> False)"

section \<open>loadContractAbi (lib/blockchain.js)\<close>

text \<open>
  The build artifact \<^verbatim>\<open>{abi, networks: {<networkId>: {address}}}\<close>, or whatever else
  \<^verbatim>\<open>JSON.parse\<close> returned: nothing checks its shape. \<open>networks = None\<close> is a value that
  has no \<^verbatim>\<open>networks\<close> object, such as \<^verbatim>\<open>{}\<close>; indexing it throws. The module starts
  with the placeholder \<^verbatim>\<open>{ networks: {} }\<close>.
\<close>

record artifact =
  abi :: "string option"
  networks :: "(nat \<times> string) list option"

text \<open>
  What one call finds on disk: no file, or a file with its \<^verbatim>\<open>mtimeMs\<close> and what
  \<^verbatim>\<open>JSON.parse\<close> makes of its contents (\<open>None\<close> when reading or parsing throws).
\<close>

datatype artifact_file = Missing | Present nat "artifact option"

record loader =
  PaymentProcessor :: artifact
  lastContractLoadTime :: nat

definition placeholder :: artifact where
  "placeholder = \<lparr>abi = None, networks = Some []\<rparr>"

definition initial_loader :: loader where
  "initial_loader = \<lparr>PaymentProcessor = placeholder, lastContractLoadTime = 0\<rparr>"

definition loadContractAbi :: "artifact_file \<Rightarrow> nat \<Rightarrow> loader \<Rightarrow> loader" where
  "loadContractAbi file now st =
     (case file of
        Missing \<Rightarrow> st
      | Present lastModified contractJson \<Rightarrow>
          if lastModified > lastContractLoadTime st then
            (case contractJson of
               None \<Rightarrow> st
             | Some parsed \<Rightarrow> \<lparr>PaymentProcessor = parsed, lastContractLoadTime = now\<rparr>)
          else st)"

text \<open>
  The loader runs once at start-up, then from the 30-second timer and before every
  contract lookup: a sequence of calls, each with what is on disk and the clock then.
\<close>

fun load_all :: "(artifact_file \<times> nat) list \<Rightarrow> loader \<Rightarrow> loader" where
  "load_all [] st = st"
| "load_all ((file, now) # rest) st = load_all rest (loadContractAbi file now st)"

subsection \<open>getPaymentProcessorContract, for calls\<close>

text \<open>
  \<^verbatim>\<open>PaymentProcessor.networks[networkId]\<close>: a \<^verbatim>\<open>TypeError\<close> when there is no
  \<^verbatim>\<open>networks\<close> object, otherwise the deployment's address or \<^verbatim>\<open>undefined\<close>.
\<close>

definition deployedNetwork :: "loader \<Rightarrow> nat \<Rightarrow> js_error + string option" where
  "deployedNetwork st networkId =
     (case networks (PaymentProcessor st) of
        None \<Rightarrow> Inl (TypeError ''Cannot read properties of undefined'')
      | Some deployments \<Rightarrow> Inr (map_of deployments networkId))"

text \<open>
  The call transport as the module sees it: the flag \<^verbatim>\<open>isBlockchainAvailable\<close> and what
  \<^verbatim>\<open>web3.eth.net.getId()\<close> resolves to while one lookup runs.
\<close>

record node =
  isBlockchainAvailable :: bool
  net_getId :: "js_error + nat"

definition isBlockchainHealthy_impl :: "node \<Rightarrow> bool \<times> node" where
  "isBlockchainHealthy_impl nd =
     (case net_getId nd of
        Inr networkId \<Rightarrow> (True, nd\<lparr>isBlockchainAvailable := True\<rparr>)
      | Inl e \<Rightarrow> (False, nd\<lparr>isBlockchainAvailable := False\<rparr>))"

text \<open>
  The contract binding the lookup hands out: the descriptor's \<^verbatim>\<open>abi\<close> and the deployment's
  address, as passed to \<^verbatim>\<open>new web3.eth.Contract(..)\<close>.
\<close>

record binding =
  bound_abi :: "string option"
  bound_address :: string

text \<open>
  \<^verbatim>\<open>getPaymentProcessorContract(false)\<close>: \<^verbatim>\<open>null\<close> at once when the transport is flagged
  unavailable; otherwise the loader runs, the transport is probed, and the descriptor is
  indexed by the node's network id. Whatever throws on the way is caught and answered
  \<^verbatim>\<open>null\<close>.
\<close>

definition getPaymentProcessorContract_impl ::
  "artifact_file \<Rightarrow> nat \<Rightarrow> node \<Rightarrow> loader \<Rightarrow> binding option \<times> node \<times> loader" where
  "getPaymentProcessorContract_impl file now nd st =
     (if \<not> isBlockchainAvailable nd then (None, nd, st)
      else
        (let st1 = loadContractAbi file now st;
             (isHealthy, nd1) = isBlockchainHealthy_impl nd
         in if \<not> isHealthy then (None, nd1, st1)
            else
              (case net_getId nd1 of
                 Inl e \<Rightarrow> (None, nd1, st1)
               | Inr networkId \<Rightarrow>
                   (case deployedNetwork st1 networkId of
                      Inl e \<Rightarrow> (None, nd1, st1)
                    | Inr None \<Rightarrow> (None, nd1, st1)
                    | Inr (Some deployed) \<Rightarrow>
                        (Some \<lparr>bound_abi = abi (PaymentProcessor st1), bound_address = deployed\<rparr>,
                         nd1, st1)))))"

section \<open>Concrete inputs\<close>

text \<open>
  One well-formed request and the environment in which it settles: a healthy node, a
  successful receipt, a contract that knows the payment, and a transaction sent to the
  contract's address (in another letter case). They are the inputs of the evaluated
  examples below.
\<close>

definition sample_hash :: string where
  "sample_hash = ''0x00000000000000000000000000000000000000000000000000000000000000aA''"

definition sample_wallet :: string where
  "sample_wallet = ''0x52908400098527886E0F7030069857D2E4169EE7''"

definition sample_isAddress :: "string \<Rightarrow> bool" where
  "sample_isAddress a = (a = sample_wallet)"

definition sample_products :: "product list" where
  "sample_products = [\<lparr>product_id = ''p1'', name = ''Mug'', price = 5, quantity = 2\<rparr>]"

definition sample_request :: request where
  "sample_request =
     \<lparr>products = Some sample_products,
      paymentId = ''pay-1'', walletAddress = sample_wallet, transactionHash = sample_hash,
      amount = Some 10, user = Some ''u1''\<rparr>"

definition sample_contract :: contract where
  "sample_contract =
     \<lparr>address = ''0xDE0b295669A9fd93D5f28d9eC85e40F4cB697BAE'',
      getPaymentStatus = (\<lambda>pid. Inr (pid = ''pay-1''))\<rparr>"

definition sample_receipt :: receipt where
  "sample_receipt = \<lparr>receipt_status = True\<rparr>"

definition sample_transaction :: transaction where
  "sample_transaction = \<lparr>to = Some ''0xde0b295669a9fd93d5f28d9ec85e40f4cb697bae''\<rparr>"

definition sample_chain :: chain where
  "sample_chain =
     \<lparr>isBlockchainHealthy = True,
      getTransactionReceipt = (\<lambda>h. Inr (Some sample_receipt)),
      getPaymentProcessorContract = Some sample_contract,
      getTransaction = (\<lambda>h. Inr (Some sample_transaction))\<rparr>"

text \<open>The same node, answering with a contract-creation transaction.\<close>

definition creation_transaction :: transaction where
  "creation_transaction = \<lparr>to = None\<rparr>"

definition creation_chain :: chain where
  "creation_chain = sample_chain\<lparr>getTransaction := (\<lambda>h. Inr (Some creation_transaction))\<rparr>"

text \<open>A database that is up: it would accept any document that passes validation.\<close>

definition sample_db :: order_store where
  "sample_db = \<lparr>fresh_id = ''665f1c2e8b3a4d0012345678'', write_error = None\<rparr>"

definition empty_cache :: "client \<Rightarrow> redis" where
  "empty_cache c = \<lparr>client = c, reachable = True, entries = Map.empty\<rparr>"

definition unreachable_cache :: "client \<Rightarrow> redis" where
  "unreachable_cache c = \<lparr>client = c, reachable = False, entries = Map.empty\<rparr>"

definition fresh_world :: "client \<Rightarrow> world" where
  "fresh_world c = \<lparr>cache = empty_cache c, orders = [], save_calls = []\<rparr>"

text \<open>
  A cache that holds a processed-payment record for the sample hash, written at clock
  reading 1000 with the seven-day expiry, and a world around it.
\<close>

definition processed_cache :: redis where
  \<open>processed_cache =
     \<lparr>client = IoRedis, reachable = True,
      entries =
        [''tx:0x00000000000000000000000000000000000000000000000000000000000000aA'' \<mapsto>
           (RStr ''{"orderId":"665f1c2e8b3a4d0012345678","timestamp":1000}'',
            Some 604801000)]\<rparr>\<close>

definition processed_world :: world where
  "processed_world = \<lparr>cache = processed_cache, orders = [], save_calls = []\<rparr>"

text \<open>An artifact as a deployment leaves it, the same contract redeployed, and a loader
  that read the first one at clock reading 100.\<close>

definition deployed_artifact :: artifact where
  "deployed_artifact =
     \<lparr>abi = Some ''[getPaymentStatus]'',
      networks = Some [(5777, ''0xDE0b295669A9fd93D5f28d9eC85e40F4cB697BAE'')]\<rparr>"

definition redeployed_artifact :: artifact where
  "redeployed_artifact =
     \<lparr>abi = Some ''[getPaymentStatus]'',
      networks = Some [(5777, ''0x8617E340B3D01FA5F11F306F4090FD50E238070D'')]\<rparr>"

definition loaded_once :: loader where
  "loaded_once = \<lparr>PaymentProcessor = deployed_artifact, lastContractLoadTime = 100\<rparr>"

text \<open>
  What \<^verbatim>\<open>JSON.parse\<close> makes of a file that holds \<^verbatim>\<open>{}\<close>, a reachable node on the
  network the artifact was deployed to, and a reachable node on another network.
\<close>

definition empty_object :: artifact where
  "empty_object = \<lparr>abi = None, networks = None\<rparr>"

definition local_node :: node where
  "local_node = \<lparr>isBlockchainAvailable = True, net_getId = Inr 5777\<rparr>"

definition other_node :: node where
  "other_node = \<lparr>isBlockchainAvailable = True, net_getId = Inr 1\<rparr>"

text \<open>
  Eleven requests from the sample wallet, one every second, each for a transaction hash of
  its own (the hashes differ in their last digit).
\<close>

definition hash_ending :: "char \<Rightarrow> string" where
  "hash_ending c = ''0x000000000000000000000000000000000000000000000000000000000000000'' @ [c]"

definition request_for :: "char \<Rightarrow> request" where
  "request_for c = sample_request\<lparr>transactionHash := hash_ending c\<rparr>"

definition eleven_requests :: "(request \<times> nat) list" where
  "eleven_requests =
     [(request_for CHR ''0'', 1000), (request_for CHR ''1'', 2000), (request_for CHR ''2'', 3000),
      (request_for CHR ''3'', 4000), (request_for CHR ''4'', 5000), (request_for CHR ''5'', 6000),
      (request_for CHR ''6'', 7000), (request_for CHR ''7'', 8000), (request_for CHR ''8'', 9000),
      (request_for CHR ''9'', 10000), (request_for CHR ''a'', 11000)]"

section \<open>Basic facts\<close>

lemmas client_defs = redis_get_def redis_set_def redis_incr_def redis_expire_def
  upstash_get_def upstash_set_def ioredis_get_def ioredis_set_def ioredis_incr_def
  ioredis_expire_def mock_get_def mock_set_def
  server_get_def server_set_def server_incr_def server_expire_def server_lookup_def live_def

lemma dec_nonempty: "dec n \<noteq> []"
  by (subst dec.simps) simp

lemma keys_distinct:
  "processing_key h \<noteq> wallet_key a"
  "wallet_key a \<noteq> processing_key h"
  "tx_key h \<noteq> processing_key h'"
  "processing_key h' \<noteq> tx_key h"
  "tx_key h \<noteq> wallet_key a"
  "wallet_key a \<noteq> tx_key h"
  by (simp_all add: processing_key_def wallet_key_def tx_key_def)

subsection \<open>What the cache calls leave alone\<close>

lemma redis_set_frame:
  assumes "redis_set r now k v ex = Inr r'"
  shows "client r' = client r" and "reachable r' = reachable r"
    and "k' \<noteq> k \<Longrightarrow> entries r' k' = entries r k'"
  using assms by (auto simp: client_defs split: client.splits if_splits)

lemma redis_incr_frame:
  assumes "redis_incr r now k = Inr (n, r')"
  shows "client r' = client r" and "reachable r' = reachable r"
    and "k' \<noteq> k \<Longrightarrow> entries r' k' = entries r k'"
  using assms
  by (auto simp: client_defs
      split: client.splits if_splits option.splits redis_value.splits sum.splits prod.splits)

lemma redis_expire_frame:
  assumes "redis_expire r now k s = Inr r'"
  shows "client r' = client r" and "reachable r' = reachable r"
    and "k' \<noteq> k \<Longrightarrow> entries r' k' = entries r k'"
  using assms
  by (auto simp: client_defs split: client.splits if_splits option.splits prod.splits)

lemma redis_get_cong:
  assumes "client r' = client r" and "reachable r' = reachable r" and "entries r' k = entries r k"
  shows "redis_get r' now k = redis_get r now k"
  using assms by (simp add: client_defs split: client.splits)

lemma cache_gate_frame:
  assumes "cache_gate req now r = (res, r')"
  shows "client r' = client r \<and> reachable r' = reachable r \<and>
         (\<forall>k. k \<noteq> processing_key (transactionHash req) \<longrightarrow> k \<noteq> wallet_key (walletAddress req)
              \<longrightarrow> entries r' k = entries r k)"
proof (cases "redis_get r now (processing_key (transactionHash req))")
  case (Inl e)
  with assms show ?thesis by (simp add: cache_gate_def)
next
  case get: (Inr cachedTx)
  show ?thesis
  proof (cases "truthy cachedTx")
    case True
    with assms get show ?thesis by (simp add: cache_gate_def)
  next
    case unlocked: False
    show ?thesis
    proof (cases "redis_set r now (processing_key (transactionHash req)) (RStr (dec now)) (Some 300)")
      case (Inl e)
      with assms get unlocked show ?thesis by (simp add: cache_gate_def)
    next
      case set: (Inr r1)
      note f1 = redis_set_frame [OF set]
      show ?thesis
      proof (cases "redis_incr r1 now (wallet_key (walletAddress req))")
        case (Inl e)
        with assms get unlocked set f1 show ?thesis by (simp add: cache_gate_def)
      next
        case (Inr p)
        then obtain n r2 where incr: "redis_incr r1 now (wallet_key (walletAddress req)) = Inr (n, r2)"
          by (cases p) simp
        note f2 = redis_incr_frame [OF incr]
        show ?thesis
        proof (cases "n = 1")
          case False
          with assms get unlocked set incr f1 f2 show ?thesis
            by (auto simp: cache_gate_def split: if_splits)
        next
          case one: True
          show ?thesis
          proof (cases "redis_expire r2 now (wallet_key (walletAddress req)) 60")
            case (Inl e)
            with assms get unlocked set incr one f1 f2 show ?thesis
              by (auto simp: cache_gate_def)
          next
            case exp: (Inr r3)
            note f3 = redis_expire_frame [OF exp]
            from assms get unlocked set incr one exp f1 f2 f3 show ?thesis
              by (auto simp: cache_gate_def)
          qed
        qed
      qed
    qed
  qed
qed

lemma validateCryptoPayment_frame:
  assumes "validateCryptoPayment isAddress req now r = (res, r')"
  shows "client r' = client r \<and> reachable r' = reachable r \<and>
         (\<forall>k. k \<noteq> processing_key (transactionHash req) \<longrightarrow> k \<noteq> wallet_key (walletAddress req)
              \<longrightarrow> entries r' k = entries r k)"
  using assms cache_gate_frame [of req now r res r']
  by (auto simp: validateCryptoPayment_def split: if_splits)

lemma validateCryptoPayment_keeps_tx:
  assumes "validateCryptoPayment isAddress req now r = (res, r')"
  shows "redis_get r' now' (tx_key h) = redis_get r now' (tx_key h)"
  using validateCryptoPayment_frame [OF assms] keys_distinct
  by (intro redis_get_cong) auto

section \<open>The contract interface loader\<close>

lemma load_all_result:
  "load_all evs st = st \<or>
   (\<exists>lastModified parsed now. (Present lastModified (Some parsed), now) \<in> set evs \<and>
      load_all evs st = \<lparr>PaymentProcessor = parsed, lastContractLoadTime = now\<rparr>)"
proof (induction evs arbitrary: st)
  case Nil
  then show ?case by simp
next
  case (Cons ev evs)
  obtain f now where ev: "ev = (f, now)" by (cases ev)
  let ?st1 = "loadContractAbi f now st"
  from Cons.IH [of ?st1] show ?case
  proof
    assume same: "load_all evs ?st1 = ?st1"
    show ?thesis
    proof (cases "?st1 = st")
      case True
      with same ev show ?thesis by simp
    next
      case False
      then obtain m a where "f = Present m (Some a)"
        and "?st1 = \<lparr>PaymentProcessor = a, lastContractLoadTime = now\<rparr>"
        by (auto simp: loadContractAbi_def split: artifact_file.splits option.splits if_splits)
      with same ev show ?thesis by auto
    qed
  next
    assume "\<exists>lastModified parsed now. (Present lastModified (Some parsed), now) \<in> set evs \<and>
      load_all evs ?st1 = \<lparr>PaymentProcessor = parsed, lastContractLoadTime = now\<rparr>"
    with ev show ?thesis by auto
  qed
qed

lemma lookup_unavailable_iff:
  "fst (getPaymentProcessorContract_impl file now nd st) = None \<longleftrightarrow>
     \<not> isBlockchainAvailable nd \<or>
     (case net_getId nd of
        Inl e \<Rightarrow> True
      | Inr networkId \<Rightarrow>
          (case deployedNetwork (loadContractAbi file now st) networkId of
             Inr (Some deployed) \<Rightarrow> False
           | _ \<Rightarrow> True))"
  by (auto simp: getPaymentProcessorContract_impl_def isBlockchainHealthy_impl_def Let_def
      split: sum.splits option.splits)

text \<open>
  C8 (amended). A call of the loader changes its state only when the artifact exists, can
  be read and parsed, and carries a modification time later than the last successful load;
  then whatever \<^verbatim>\<open>JSON.parse\<close> returned replaces the descriptor, whatever its shape, and
  the load time becomes the current clock reading. When the file is missing, or reading or
  parsing it throws, the state (and with it the last-good descriptor) stays as it was. Over
  any sequence of calls from start-up the loader holds its start-up state or a value that
  one of the calls parsed. The contract lookup reports unavailability exactly when the
  call transport is flagged unavailable, the network id cannot be fetched, or the
  descriptor in force after the reload has no deployment for the node's network id; in the
  start-up state that is every network.
\<close>

theorem loader_keeps_last_good:
  "(loadContractAbi file now st \<noteq> st \<longrightarrow>
      (\<exists>lastModified parsed. file = Present lastModified (Some parsed) \<and>
         lastContractLoadTime st < lastModified \<and>
         loadContractAbi file now st = \<lparr>PaymentProcessor = parsed, lastContractLoadTime = now\<rparr>)) \<and>
   (file = Missing \<or> file = Present lastModified None \<longrightarrow> loadContractAbi file now st = st) \<and>
   (lastContractLoadTime st < lastModified \<longrightarrow>
      loadContractAbi (Present lastModified (Some parsed)) now st =
        \<lparr>PaymentProcessor = parsed, lastContractLoadTime = now\<rparr>) \<and>
   (load_all evs initial_loader = initial_loader \<or>
      (\<exists>lastModified parsed now. (Present lastModified (Some parsed), now) \<in> set evs \<and>
         load_all evs initial_loader = \<lparr>PaymentProcessor = parsed, lastContractLoadTime = now\<rparr>)) \<and>
   (fst (getPaymentProcessorContract_impl file now nd st) = None \<longleftrightarrow>
      \<not> isBlockchainAvailable nd \<or>
      (case net_getId nd of
         Inl e \<Rightarrow> True
       | Inr networkId \<Rightarrow>
           (case deployedNetwork (loadContractAbi file now st) networkId of
              Inr (Some deployed) \<Rightarrow> False
            | _ \<Rightarrow> True))) \<and>
   deployedNetwork initial_loader networkId = Inr None"
proof (intro conjI)
  show "loadContractAbi file now st \<noteq> st \<longrightarrow>
      (\<exists>lastModified parsed. file = Present lastModified (Some parsed) \<and>
         lastContractLoadTime st < lastModified \<and>
         loadContractAbi file now st = \<lparr>PaymentProcessor = parsed, lastContractLoadTime = now\<rparr>)"
    by (auto simp: loadContractAbi_def split: artifact_file.splits option.splits if_splits)
  show "file = Missing \<or> file = Present lastModified None \<longrightarrow> loadContractAbi file now st = st"
    by (auto simp: loadContractAbi_def)
  show "lastContractLoadTime st < lastModified \<longrightarrow>
      loadContractAbi (Present lastModified (Some parsed)) now st =
        \<lparr>PaymentProcessor = parsed, lastContractLoadTime = now\<rparr>"
    by (simp add: loadContractAbi_def)
  show "load_all evs initial_loader = initial_loader \<or>
      (\<exists>lastModified parsed now. (Present lastModified (Some parsed), now) \<in> set evs \<and>
         load_all evs initial_loader = \<lparr>PaymentProcessor = parsed, lastContractLoadTime = now\<rparr>)"
    by (rule load_all_result)
  show "fst (getPaymentProcessorContract_impl file now nd st) = None \<longleftrightarrow>
      \<not> isBlockchainAvailable nd \<or>
      (case net_getId nd of
         Inl e \<Rightarrow> True
       | Inr networkId \<Rightarrow>
           (case deployedNetwork (loadContractAbi file now st) networkId of
              Inr (Some deployed) \<Rightarrow> False
            | _ \<Rightarrow> True))"
    by (rule lookup_unavailable_iff)
  show "deployedNetwork initial_loader networkId = Inr None"
    by (simp add: deployedNetwork_def initial_loader_def placeholder_def)
qed

theorem loader_keeps_last_good_witness:
  "loadContractAbi (Present 200 (Some redeployed_artifact)) 300 loaded_once \<noteq> loaded_once \<and>
   lastContractLoadTime loaded_once < 200 \<and>
   loadContractAbi (Present 200 (Some redeployed_artifact)) 300 loaded_once =
     \<lparr>PaymentProcessor = redeployed_artifact, lastContractLoadTime = 300\<rparr> \<and>
   loadContractAbi Missing 300 loaded_once = loaded_once \<and>
   loadContractAbi (Present 200 None) 300 loaded_once = loaded_once \<and>
   loadContractAbi (Present 50 (Some redeployed_artifact)) 300 loaded_once = loaded_once \<and>
   load_all [(Missing, 10), (Present 5 (Some deployed_artifact), 100), (Present 150 None, 200),
             (Missing, 250)] initial_loader = loaded_once \<and>
   fst (getPaymentProcessorContract_impl (Present 200 None) 300 local_node loaded_once) =
     Some \<lparr>bound_abi = Some ''[getPaymentStatus]'',
           bound_address = ''0xDE0b295669A9fd93D5f28d9eC85e40F4cB697BAE''\<rparr> \<and>
   fst (getPaymentProcessorContract_impl Missing 300 local_node initial_loader) = None"
  using loader_keeps_last_good [of "Present 200 (Some redeployed_artifact)" 300 loaded_once 200
      redeployed_artifact
      "[(Missing, 10), (Present 5 (Some deployed_artifact), 100), (Present 150 None, 200), (Missing, 250)]"
      local_node 5777]
    loader_keeps_last_good [of Missing 300 loaded_once 200 redeployed_artifact "[]" local_node 5777]
    loader_keeps_last_good [of "Present 200 None" 300 loaded_once 200 redeployed_artifact "[]"
      local_node 5777]
    loader_keeps_last_good [of "Present 50 (Some redeployed_artifact)" 300 loaded_once 50
      redeployed_artifact "[]" local_node 5777]
    loader_keeps_last_good [of Missing 300 initial_loader 200 redeployed_artifact "[]" local_node 5777]
  by (simp add: loadContractAbi_def loaded_once_def redeployed_artifact_def deployed_artifact_def
      initial_loader_def placeholder_def deployedNetwork_def local_node_def
      getPaymentProcessorContract_impl_def isBlockchainHealthy_impl_def)

text \<open>
  The specification's sentence fails as written in two places. A file that holds \<^verbatim>\<open>{}\<close>
  parses, so it replaces the last-good descriptor, and the lookup that found the contract
  before reports it unavailable afterwards. And a loader that has loaded a well-formed
  artifact still reports the contract unavailable to a node on a network the artifact has
  no deployment for.
\<close>

theorem wrong_shape_replaces_last_good:
  "fst (getPaymentProcessorContract_impl Missing 300 local_node loaded_once) =
     Some \<lparr>bound_abi = Some ''[getPaymentStatus]'',
           bound_address = ''0xDE0b295669A9fd93D5f28d9eC85e40F4cB697BAE''\<rparr> \<and>
   loadContractAbi (Present 400 (Some empty_object)) 500 loaded_once =
     \<lparr>PaymentProcessor = empty_object, lastContractLoadTime = 500\<rparr> \<and>
   fst (getPaymentProcessorContract_impl (Present 400 (Some empty_object)) 500 local_node
          loaded_once) = None \<and>
   lastContractLoadTime loaded_once = 100 \<and>
   fst (getPaymentProcessorContract_impl Missing 300 other_node loaded_once) = None"
  by (simp add: loadContractAbi_def loaded_once_def deployed_artifact_def empty_object_def
      deployedNetwork_def local_node_def other_node_def
      getPaymentProcessorContract_impl_def isBlockchainHealthy_impl_def)

section \<open>The handler\<close>

text \<open>
  C10. When every check before the recipient comparison passes and the fetched transaction
  exists with a \<^verbatim>\<open>null\<close> recipient, reading \<^verbatim>\<open>transaction.to.toLowerCase\<close> throws inside
  the inner \<^verbatim>\<open>try\<close>: the handler answers 500 "Error verifying blockchain transaction"
  with \<^verbatim>\<open>retryable: true\<close>, not the 400 wrong-recipient answer, and leaves orders and
  cache as they were.
\<close>

theorem null_recipient_is_500:
  assumes "products req = Some ps" and "ps \<noteq> []"
    and "\<not> falsy (paymentId req)" and "\<not> falsy (walletAddress req)"
    and "\<not> falsy (transactionHash req)"
    and "redis_get (cache w) now (tx_key (transactionHash req)) = Inr cachedTransaction"
    and "\<not> truthy cachedTransaction"
    and "isBlockchainHealthy bc"
    and "getTransactionReceipt bc (transactionHash req) = Inr (Some rcpt)"
    and "receipt_status rcpt"
    and "getPaymentProcessorContract bc = Some con"
    and "getPaymentStatus con (paymentId req) = Inr True"
    and "getTransaction bc (transactionHash req) = Inr (Some tx)"
    and "to tx = None"
  shows "verifyCryptoPayment bc db req now w =
           (ErrorJson 500 ''Error verifying blockchain transaction'' None (Some True)
              (Some ''Cannot read properties of null (reading 'toLowerCase')''), w)"
  using assms
  by (simp add: verifyCryptoPayment_def verify_on_chain_def blockchain_catch_def
      null_toLowerCase_def)

theorem null_recipient_is_500_witness:
  "verifyCryptoPayment creation_chain sample_db sample_request 1000 (fresh_world IoRedis) =
     (ErrorJson 500 ''Error verifying blockchain transaction'' None (Some True)
        (Some ''Cannot read properties of null (reading 'toLowerCase')''), fresh_world IoRedis)"
  using null_recipient_is_500 [of sample_request sample_products
      "fresh_world IoRedis" 1000 None creation_chain sample_receipt sample_contract
      creation_transaction sample_db]
  by (simp add: creation_chain_def creation_transaction_def sample_chain_def sample_contract_def
      sample_receipt_def sample_request_def sample_products_def sample_hash_def sample_wallet_def
      fresh_world_def empty_cache_def client_defs falsy_def tx_key_def)

section \<open>The handler, case by case\<close>

lemmas sample_defs = sample_hash_def sample_wallet_def sample_isAddress_def sample_request_def
  sample_products_def sample_receipt_def sample_transaction_def
  sample_contract_def sample_chain_def sample_db_def empty_cache_def fresh_world_def

lemmas handler_defs = verifyCryptoPayment_def verify_on_chain_def create_order_def new_Order_def
  save_def validate_order_def validate_item_def status_enum_def paymentMethod_enum_def
  tx_key_def falsy_def toLowerCase_def toLowerCase_char_def char_of_def bit_Suc_0_iff client_defs

lemmas middleware_defs = validateCryptoPayment_def cache_gate_def processing_key_def wallet_key_def
  txHashRegex_def is_hex_def invalid_products_def invalid_amount_def falsy_def

lemma sample_request_valid: "structurally_valid sample_isAddress sample_request"
  by (simp add: structurally_valid_def sample_defs middleware_defs)

lemma processed_record_nonempty: "processed_record oid now \<noteq> []"
  by (simp add: processed_record_def)

lemma redis_set_entry:
  assumes "redis_set r now k v (Some s) = Inr r'"
  shows "entries r' k = Some (v, if client r = MemoryMock then None else Some (now + 1000 * s))"
  using assms by (auto simp: client_defs split: client.splits if_splits)

subsection \<open>The document the handler builds never passes validation\<close>

lemma new_Order_fails_validation:
  "''totalAmount'' \<in> set (validate_order (new_Order db req ps)) \<and>
   ''status'' \<in> set (validate_order (new_Order db req ps))"
  by (simp add: validate_order_def new_Order_def status_enum_def)

lemma save_rejects:
  "save db' (new_Order db req ps) = Some (ValidationError (validate_order (new_Order db req ps)))"
proof -
  have "validate_order (new_Order db req ps) \<noteq> []"
    using new_Order_fails_validation [of db req ps] by auto
  then show ?thesis by (simp add: save_def)
qed

lemma create_order_rejected:
  "create_order db req ps now w =
     (blockchain_catch (ValidationError (validate_order (new_Order db req ps))),
      w\<lparr>save_calls := save_calls w @ [new_Order db req ps]\<rparr>)"
  by (simp add: create_order_def Let_def save_rejects)

lemma verify_on_chain_cases:
  assumes "verify_on_chain bc db req ps now w = (res, w')"
  shows "(w' = w \<and> (\<exists>c m ra rt d. res = ErrorJson c m ra rt d)) \<or>
         (settlement_verified bc req \<and> create_order db req ps now w = (res, w'))"
  using assms
  by (auto simp: verify_on_chain_def settlement_verified_def services_unavailable_def
      blockchain_catch_def split: sum.splits option.splits if_splits)

lemma verifyCryptoPayment_cases:
  assumes "verifyCryptoPayment bc db req now w = (res, w')"
  shows "(w' = w \<and> (\<exists>c m ra rt d. res = ErrorJson c m ra rt d)) \<or>
         (\<exists>ps. products req = Some ps \<and> ps \<noteq> [] \<and>
            redis_get (cache w) now (tx_key (transactionHash req)) \<in> {Inr None, Inr (Some (RStr []))} \<and>
            isBlockchainHealthy bc \<and>
            settlement_verified bc req \<and> create_order db req ps now w = (res, w'))"
proof (cases "products req")
  case None
  with assms show ?thesis by (auto simp: verifyCryptoPayment_def)
next
  case (Some ps)
  show ?thesis
  proof (cases "redis_get (cache w) now (tx_key (transactionHash req))")
    case (Inl e)
    with assms Some show ?thesis
      by (auto simp: verifyCryptoPayment_def outer_catch_def split: if_splits)
  next
    case (Inr cached)
    show ?thesis
    proof (cases "truthy cached")
      case True
      with assms Some Inr show ?thesis
        by (auto simp: verifyCryptoPayment_def split: if_splits)
    next
      case False
      then have "cached = None \<or> cached = Some (RStr [])"
        by (cases cached rule: truthy.cases) auto
      with assms Some Inr False verify_on_chain_cases [of bc db req ps now w res w']
      show ?thesis
        by (auto simp: verifyCryptoPayment_def services_unavailable_def split: if_splits)
    qed
  qed
qed

lemma record_blocks_handler:
  assumes "redis_get (cache w) now (tx_key (transactionHash req)) = Inr cachedTransaction"
    and "truthy cachedTransaction"
  shows "\<exists>m. verifyCryptoPayment bc db req now w = (ErrorJson 400 m None None None, w)"
  using assms
  by (auto simp: verifyCryptoPayment_def split: option.splits)

text \<open>
  Every run of the handler answers with an error body and leaves cache and orders as they
  were. If it called \<^verbatim>\<open>save()\<close> at all, the three ledger checks had passed, the call was
  its only one, and the answer is the inner \<^verbatim>\<open>catch\<close>'s 500.
\<close>

lemma handler_outcome:
  assumes "verifyCryptoPayment bc db req now w = (res, w')"
  shows "(\<exists>c m ra rt d. res = ErrorJson c m ra rt d) \<and> cache w' = cache w \<and>
         orders w' = orders w \<and>
         (save_calls w' = save_calls w \<or>
          (settlement_verified bc req \<and>
           redis_get (cache w) now (tx_key (transactionHash req)) \<in> {Inr None, Inr (Some (RStr []))} \<and>
           (\<exists>ps. products req = Some ps \<and> save_calls w' = save_calls w @ [new_Order db req ps]) \<and>
           (\<exists>paths. res = ErrorJson 500 ''Error verifying blockchain transaction'' None
                             (Some True) (Some (message (ValidationError paths))))))"
  using verifyCryptoPayment_cases [OF assms]
  by (auto simp: create_order_rejected blockchain_catch_def)

text \<open>
  C7. What the code does with a payment that passes every check: it builds the order
  document, calls \<^verbatim>\<open>save()\<close>, and \<^verbatim>\<open>save()\<close> rejects, because the document has no
  \<^verbatim>\<open>totalAmount\<close>, its items have no \<^verbatim>\<open>product\<close>, and \<^verbatim>\<open>'completed'\<close> is not in the
  \<^verbatim>\<open>enum\<close> of \<^verbatim>\<open>status\<close>. The inner \<^verbatim>\<open>catch\<close> answers 500 "Error verifying blockchain
  transaction"; no order is stored and nothing is written under \<^verbatim>\<open>tx:<hash>\<close>. By
  \<open>handler_outcome\<close> this is so for every request: the write of the processed record is
  never reached. Evaluated on the sample request through the whole route.
\<close>

theorem settled_payment_is_answered_500:
  \<open>settlement_verified sample_chain sample_request \<and>
   validate_order (new_Order sample_db sample_request sample_products) =
     [''products.0.product'', ''totalAmount'', ''status''] \<and>
   (case fst (verify sample_isAddress sample_chain sample_db sample_request 1000
                (fresh_world IoRedis)) of
      ErrorJson c m ra rt d \<Rightarrow>
        c = 500 \<and> m = ''Error verifying blockchain transaction'' \<and> rt = Some True
    | OrderJson oid a \<Rightarrow> False) \<and>
   orders (snd (verify sample_isAddress sample_chain sample_db sample_request 1000
                  (fresh_world IoRedis))) = [] \<and>
   save_calls (snd (verify sample_isAddress sample_chain sample_db sample_request 1000
                      (fresh_world IoRedis))) =
     [new_Order sample_db sample_request sample_products] \<and>
   entries (cache (snd (verify sample_isAddress sample_chain sample_db sample_request 1000
                          (fresh_world IoRedis))))
     ''tx:0x00000000000000000000000000000000000000000000000000000000000000aA'' = None\<close>
  by (simp add: verify_def settlement_verified_def sample_defs middleware_defs handler_defs
      blockchain_catch_def enumerate_simps dec.simps digit_def)

section \<open>The route\<close>

lemma verify_cases:
  assumes "verify isAddress bc db req now w = (res, w')"
  shows "\<exists>mw c. validateCryptoPayment isAddress req now (cache w) = (mw, c) \<and>
           ((\<exists>r. mw = Respond r \<and> res = r \<and> w' = w\<lparr>cache := c\<rparr>) \<or>
            (mw = Next \<and> verifyCryptoPayment bc db req now (w\<lparr>cache := c\<rparr>) = (res, w')))"
  using assms
  by (cases "validateCryptoPayment isAddress req now (cache w)")
    (auto simp: verify_def split: mw_result.splits)

lemma validate_responds_error:
  assumes "validateCryptoPayment isAddress req now r = (Respond res, r')"
  shows "\<exists>c m ra. res = ErrorJson c m ra None None \<and> 400 \<le> c"
proof -
  have "fst (cache_gate req now r) = Respond res \<Longrightarrow> res \<in> {already_being_processed, too_many_requests}"
    by (auto simp: cache_gate_def split: sum.splits if_splits prod.splits)
  with assms show ?thesis
    by (auto simp: validateCryptoPayment_def already_being_processed_def too_many_requests_def
        split: if_splits)
qed

lemma record_blocks_route:
  assumes "redis_get (cache w) now (tx_key (transactionHash req)) = Inr cachedTransaction"
    and "truthy cachedTransaction"
  shows "\<exists>c m ra rt d w'. verify isAddress bc db req now w = (ErrorJson c m ra rt d, w') \<and>
           400 \<le> c \<and> orders w' = orders w"
proof -
  obtain res w' where run: "verify isAddress bc db req now w = (res, w')"
    by (cases "verify isAddress bc db req now w")
  from verify_cases [OF run] obtain mw c where
    mw: "validateCryptoPayment isAddress req now (cache w) = (mw, c)" and
    alt: "(\<exists>r. mw = Respond r \<and> res = r \<and> w' = w\<lparr>cache := c\<rparr>) \<or>
            (mw = Next \<and> verifyCryptoPayment bc db req now (w\<lparr>cache := c\<rparr>) = (res, w'))"
    by blast
  from alt show ?thesis
  proof
    assume "\<exists>r. mw = Respond r \<and> res = r \<and> w' = w\<lparr>cache := c\<rparr>"
    with mw validate_responds_error [of isAddress req now "cache w" res c] run
    show ?thesis by auto
  next
    assume nxt: "mw = Next \<and> verifyCryptoPayment bc db req now (w\<lparr>cache := c\<rparr>) = (res, w')"
    have "redis_get (cache (w\<lparr>cache := c\<rparr>)) now (tx_key (transactionHash req)) = Inr cachedTransaction"
      using validateCryptoPayment_keeps_tx [OF mw, of now "transactionHash req"] assms(1) by simp
    from record_blocks_handler [OF this assms(2), of bc db] nxt run
    show ?thesis by auto
  qed
qed

text \<open>
  C1 (amended). When the cache returns a truthy value for \<^verbatim>\<open>tx:<transactionHash>\<close>, the
  handler answers with status 400 and an error body, which for a well-formed request is
  \<^verbatim>\<open>{error: "Transaction already processed"}\<close>, and leaves orders and cache untouched; the
  whole route answers with an error status of 400 or more and creates no order. The
  duplicate is rejected, not acknowledged as a success.
\<close>

theorem already_processed_is_rejected:
  assumes "redis_get (cache w) now (tx_key (transactionHash req)) = Inr cachedTransaction"
    and "truthy cachedTransaction"
  shows "(\<exists>m. verifyCryptoPayment bc db req now w = (ErrorJson 400 m None None None, w)) \<and>
         (products req = Some ps \<and> ps \<noteq> [] \<and> \<not> falsy (paymentId req) \<and>
          \<not> falsy (walletAddress req) \<and> \<not> falsy (transactionHash req) \<longrightarrow>
            verifyCryptoPayment bc db req now w =
              (ErrorJson 400 ''Transaction already processed'' None None None, w)) \<and>
         (\<exists>c m ra rt d w'. verify isAddress bc db req now w = (ErrorJson c m ra rt d, w') \<and>
            400 \<le> c \<and> orders w' = orders w)"
proof (intro conjI)
  show "\<exists>m. verifyCryptoPayment bc db req now w = (ErrorJson 400 m None None None, w)"
    by (rule record_blocks_handler [OF assms])
  show "products req = Some ps \<and> ps \<noteq> [] \<and> \<not> falsy (paymentId req) \<and>
          \<not> falsy (walletAddress req) \<and> \<not> falsy (transactionHash req) \<longrightarrow>
            verifyCryptoPayment bc db req now w =
              (ErrorJson 400 ''Transaction already processed'' None None None, w)"
    using assms by (simp add: verifyCryptoPayment_def)
  show "\<exists>c m ra rt d w'. verify isAddress bc db req now w = (ErrorJson c m ra rt d, w') \<and>
            400 \<le> c \<and> orders w' = orders w"
    by (rule record_blocks_route [OF assms])
qed

theorem already_processed_is_rejected_witness:
  \<open>redis_get (cache processed_world) 2000 (tx_key (transactionHash sample_request)) =
     Inr (Some (RStr ''{"orderId":"665f1c2e8b3a4d0012345678","timestamp":1000}'')) \<and>
   truthy (Some (RStr ''{"orderId":"665f1c2e8b3a4d0012345678","timestamp":1000}'')) \<and>
   verifyCryptoPayment sample_chain sample_db sample_request 2000 processed_world =
     (ErrorJson 400 ''Transaction already processed'' None None None, processed_world)\<close>
proof -
  have rd: \<open>redis_get (cache processed_world) 2000 (tx_key (transactionHash sample_request)) =
     Inr (Some (RStr ''{"orderId":"665f1c2e8b3a4d0012345678","timestamp":1000}''))\<close>
    by (simp add: processed_world_def processed_cache_def sample_request_def sample_hash_def
        tx_key_def client_defs)
  have tr: \<open>truthy (Some (RStr ''{"orderId":"665f1c2e8b3a4d0012345678","timestamp":1000}''))\<close>
    by simp
  from already_processed_is_rejected [OF rd tr, of sample_chain sample_db sample_products
      sample_isAddress]
  have "verifyCryptoPayment sample_chain sample_db sample_request 2000 processed_world =
     (ErrorJson 400 ''Transaction already processed'' None None None, processed_world)"
    by (simp add: sample_request_def sample_products_def sample_wallet_def sample_hash_def falsy_def)
  with rd tr show ?thesis by simp
qed

text \<open>
  The specification's sentence fails as written: with a processed-payment record for the
  sample hash in the cache, the sample request is answered 400 with an error body, by the
  handler and through the whole route, and no order is created.
\<close>

theorem replay_is_answered_400:
  \<open>entries (cache processed_world)
     ''tx:0x00000000000000000000000000000000000000000000000000000000000000aA'' =
     Some (RStr ''{"orderId":"665f1c2e8b3a4d0012345678","timestamp":1000}'', Some 604801000) \<and>
   transactionHash sample_request =
     ''0x00000000000000000000000000000000000000000000000000000000000000aA'' \<and>
   fst (verifyCryptoPayment sample_chain sample_db sample_request 2000 processed_world) =
     ErrorJson 400 ''Transaction already processed'' None None None \<and>
   fst (verify sample_isAddress sample_chain sample_db sample_request 2000 processed_world) =
     ErrorJson 400 ''Transaction already processed'' None None None \<and>
   orders (snd (verify sample_isAddress sample_chain sample_db sample_request 2000
                  processed_world)) = []\<close>
  by (simp add: verify_def processed_world_def processed_cache_def sample_defs middleware_defs
      handler_defs)

lemma route_outcome:
  assumes "verify isAddress bc db req now w = (res, w')"
  shows "orders w' = orders w \<and>
         (save_calls w' = save_calls w \<or>
          (settlement_verified bc req \<and>
           redis_get (cache w) now (tx_key (transactionHash req)) \<in> {Inr None, Inr (Some (RStr []))} \<and>
           (\<exists>ps. products req = Some ps \<and> save_calls w' = save_calls w @ [new_Order db req ps])))"
proof -
  from verify_cases [OF assms] obtain mw c where
    mw: "validateCryptoPayment isAddress req now (cache w) = (mw, c)" and
    alt: "(\<exists>r. mw = Respond r \<and> res = r \<and> w' = w\<lparr>cache := c\<rparr>) \<or>
            (mw = Next \<and> verifyCryptoPayment bc db req now (w\<lparr>cache := c\<rparr>) = (res, w'))"
    by blast
  from alt show ?thesis
  proof
    assume "\<exists>r. mw = Respond r \<and> res = r \<and> w' = w\<lparr>cache := c\<rparr>"
    then show ?thesis by auto
  next
    assume "mw = Next \<and> verifyCryptoPayment bc db req now (w\<lparr>cache := c\<rparr>) = (res, w')"
    then have handler: "verifyCryptoPayment bc db req now (w\<lparr>cache := c\<rparr>) = (res, w')" by simp
    from handler_outcome [OF handler]
      validateCryptoPayment_keeps_tx [OF mw, of now "transactionHash req"]
    show ?thesis by auto
  qed
qed

text \<open>
  C3. In every run of the route, \<^verbatim>\<open>order.save()\<close> is called only if the receipt was
  fetched with a truthy status, the contract reported a truthy status for the payment id,
  and the transaction's recipient equals the contract's address up to letter case; it is
  then called once, on the document built from the request. No run adds an order to the
  store: the document never passes the schema's validators (\<open>save_rejects\<close>), so there
  is never a first order for a hash, let alone a second. And whenever the cache returns a
  processed-payment record for the hash, the run does not even reach \<^verbatim>\<open>save()\<close>.
\<close>

theorem save_only_after_checks_and_no_second_order:
  "(save_calls (snd (verify isAddress bc db req now w)) \<noteq> save_calls w \<longrightarrow>
      settlement_verified bc req \<and>
      (\<exists>ps. products req = Some ps \<and>
         save_calls (snd (verify isAddress bc db req now w)) =
           save_calls w @ [new_Order db req ps])) \<and>
   orders (snd (verify isAddress bc db req now w)) = orders w \<and>
   (redis_get (cache w) now (tx_key (transactionHash req)) = Inr cachedTransaction \<and>
    truthy cachedTransaction \<longrightarrow>
      save_calls (snd (verify isAddress bc db req now w)) = save_calls w)"
proof -
  obtain res w' where run: "verify isAddress bc db req now w = (res, w')"
    by (cases "verify isAddress bc db req now w")
  note out = route_outcome [OF run]
  have "truthy cachedTransaction \<Longrightarrow>
      (Inr cachedTransaction :: js_error + redis_value option) \<notin> {Inr None, Inr (Some (RStr []))}"
    by (cases cachedTransaction rule: truthy.cases) auto
  with out run show ?thesis by auto
qed

theorem save_only_after_checks_and_no_second_order_witness:
  \<open>save_calls (snd (verify sample_isAddress sample_chain sample_db sample_request 1000
                      (fresh_world IoRedis))) \<noteq> save_calls (fresh_world IoRedis) \<and>
   settlement_verified sample_chain sample_request \<and>
   save_calls (snd (verify sample_isAddress sample_chain sample_db sample_request 1000
                      (fresh_world IoRedis))) =
     [new_Order sample_db sample_request sample_products] \<and>
   orders (snd (verify sample_isAddress sample_chain sample_db sample_request 1000
                  (fresh_world IoRedis))) = [] \<and>
   redis_get (cache processed_world) 2000 (tx_key (transactionHash sample_request)) =
     Inr (Some (RStr ''{"orderId":"665f1c2e8b3a4d0012345678","timestamp":1000}'')) \<and>
   save_calls (snd (verify sample_isAddress sample_chain sample_db sample_request 2000
                      processed_world)) = []\<close>
proof -
  have called: "save_calls (snd (verify sample_isAddress sample_chain sample_db sample_request 1000
      (fresh_world IoRedis))) \<noteq> save_calls (fresh_world IoRedis)"
    by (simp add: verify_def sample_defs middleware_defs handler_defs)
  have rd: \<open>redis_get (cache processed_world) 2000 (tx_key (transactionHash sample_request)) =
     Inr (Some (RStr ''{"orderId":"665f1c2e8b3a4d0012345678","timestamp":1000}''))\<close>
    by (simp add: processed_world_def processed_cache_def sample_request_def sample_hash_def
        tx_key_def client_defs)
  have tr: \<open>truthy (Some (RStr ''{"orderId":"665f1c2e8b3a4d0012345678","timestamp":1000}''))\<close>
    by simp
  from save_only_after_checks_and_no_second_order [of sample_isAddress sample_chain sample_db
      sample_request 1000 "fresh_world IoRedis"] called
  have first: "settlement_verified sample_chain sample_request \<and>
      save_calls (snd (verify sample_isAddress sample_chain sample_db sample_request 1000
        (fresh_world IoRedis))) = [new_Order sample_db sample_request sample_products] \<and>
      orders (snd (verify sample_isAddress sample_chain sample_db sample_request 1000
        (fresh_world IoRedis))) = []"
    by (auto simp: fresh_world_def sample_request_def)
  from save_only_after_checks_and_no_second_order [of sample_isAddress sample_chain sample_db
      sample_request 2000 processed_world
      \<open>Some (RStr ''{"orderId":"665f1c2e8b3a4d0012345678","timestamp":1000}'')\<close>] rd tr
  have "save_calls (snd (verify sample_isAddress sample_chain sample_db sample_request 2000
      processed_world)) = []"
    by (simp add: processed_world_def)
  with called first rd show ?thesis by simp
qed

text \<open>
  C4. What the code does when the cache cannot be reached, on the two clients that talk to
  a server: the middleware swallows the failure and calls \<^verbatim>\<open>next()\<close>, and the handler's
  own \<^verbatim>\<open>redis.get\<close>, which no inner \<^verbatim>\<open>try\<close> protects, throws into the outer
  \<^verbatim>\<open>catch\<close>. Every structurally valid request is answered 500 "An error occurred while
  verifying crypto payment", with the cache error's message as details, before any ledger
  call and whatever the ledger would have said; nothing is written.
\<close>

theorem unreachable_cache_is_500:
  assumes "structurally_valid isAddress req"
    and "\<not> reachable (cache w)" and "client (cache w) \<noteq> MemoryMock"
  shows "\<exists>e. redis_get (cache w) now (tx_key (transactionHash req)) = Inl e \<and>
           verify isAddress bc db req now w =
             (ErrorJson 500 ''An error occurred while verifying crypto payment'' None None
                (Some (message e)), w)"
proof -
  have gate: "validateCryptoPayment isAddress req now (cache w) = (Next, cache w)"
    using assms
    by (cases "client (cache w)")
      (simp_all add: validateCryptoPayment_def structurally_valid_def cache_gate_def
        redis_get_def upstash_get_def ioredis_get_def)
  have "\<exists>ps. products req = Some ps \<and> ps \<noteq> []"
    using assms(1) by (auto simp: structurally_valid_def invalid_products_def split: option.splits)
  then obtain ps where ps: "products req = Some ps" "ps \<noteq> []" by blast
  from assms(2,3) obtain e where
    thrown: "redis_get (cache w) now (tx_key (transactionHash req)) = Inl e"
    by (cases "client (cache w)") (auto simp: redis_get_def upstash_get_def ioredis_get_def)
  with assms(1) gate ps have
    "verify isAddress bc db req now w =
       (ErrorJson 500 ''An error occurred while verifying crypto payment'' None None
          (Some (message e)), w)"
    by (simp add: verify_def verifyCryptoPayment_def structurally_valid_def outer_catch_def)
  with thrown show ?thesis by blast
qed

theorem unreachable_cache_is_500_witness:
  "structurally_valid sample_isAddress sample_request \<and>
   \<not> reachable (unreachable_cache UpstashRedisRestClient) \<and>
   status (fst (verify sample_isAddress sample_chain sample_db sample_request 1000
       \<lparr>cache = unreachable_cache UpstashRedisRestClient, orders = [], save_calls = []\<rparr>)) = 500 \<and>
   error (fst (verify sample_isAddress sample_chain sample_db sample_request 1000
       \<lparr>cache = unreachable_cache UpstashRedisRestClient, orders = [], save_calls = []\<rparr>)) =
     ''An error occurred while verifying crypto payment'' \<and>
   snd (verify sample_isAddress sample_chain sample_db sample_request 1000
       \<lparr>cache = unreachable_cache UpstashRedisRestClient, orders = [], save_calls = []\<rparr>) =
     \<lparr>cache = unreachable_cache UpstashRedisRestClient, orders = [], save_calls = []\<rparr> \<and>
   status (fst (verify sample_isAddress sample_chain sample_db sample_request 1000
       \<lparr>cache = unreachable_cache IoRedis, orders = [], save_calls = []\<rparr>)) = 500"
  using sample_request_valid
    unreachable_cache_is_500 [of sample_isAddress sample_request
      "\<lparr>cache = unreachable_cache UpstashRedisRestClient, orders = [], save_calls = []\<rparr>"
      1000 sample_chain sample_db]
    unreachable_cache_is_500 [of sample_isAddress sample_request
      "\<lparr>cache = unreachable_cache IoRedis, orders = [], save_calls = []\<rparr>"
      1000 sample_chain sample_db]
  by (auto simp: unreachable_cache_def)

section \<open>The per-wallet rate limit\<close>

lemma rest_gate:
  assumes "client r = UpstashRedisRestClient"
  shows "fst (cache_gate req now r) \<noteq> Respond too_many_requests"
proof (cases "redis_set r now (processing_key (transactionHash req)) (RStr (dec now)) (Some 300)")
  case (Inl e)
  then show ?thesis
    by (auto simp: cache_gate_def already_being_processed_def too_many_requests_def
        split: sum.splits)
next
  case (Inr r1)
  from redis_set_frame(1) [OF Inr] assms have "client r1 = UpstashRedisRestClient" by simp
  then have "redis_incr r1 now (wallet_key (walletAddress req)) =
      Inl (TypeError ''redis.incr is not a function'')"
    by (simp add: redis_incr_def)
  with Inr show ?thesis
    by (auto simp: cache_gate_def already_being_processed_def too_many_requests_def
        split: sum.splits)
qed

lemma rest_validate:
  assumes "client r = UpstashRedisRestClient"
  shows "fst (validateCryptoPayment isAddress req now r) \<noteq> Respond too_many_requests"
  using rest_gate [OF assms, of req now]
  by (simp add: validateCryptoPayment_def too_many_requests_def)

lemma rest_serve_all:
  assumes "client r = UpstashRedisRestClient"
  shows "Respond too_many_requests \<notin> set (fst (serve_all isAddress reqs r))"
  using assms
proof (induction reqs arbitrary: r)
  case Nil
  then show ?case by simp
next
  case (Cons a reqs)
  obtain req now where a: "a = (req, now)" by (cases a)
  obtain res r1 where step: "validateCryptoPayment isAddress req now r = (res, r1)"
    by (cases "validateCryptoPayment isAddress req now r")
  have "client r1 = UpstashRedisRestClient"
    using validateCryptoPayment_frame [OF step] Cons.prems by simp
  from Cons.IH [OF this] have rest: "Respond too_many_requests \<notin> set (fst (serve_all isAddress reqs r1))" .
  have "res \<noteq> Respond too_many_requests"
    using rest_validate [OF Cons.prems, of isAddress req now] step by simp
  with rest a step show ?case
    by (cases "serve_all isAddress reqs r1") simp
qed

lemma rest_proceeds:
  assumes "client r = UpstashRedisRestClient" and "reachable r"
    and "structurally_valid isAddress req"
    and "\<not> truthy (server_get (entries r) now (processing_key (transactionHash req)))"
  shows "validateCryptoPayment isAddress req now r =
           (Next, r\<lparr>entries := server_set (entries r) now (processing_key (transactionHash req))
                                   (RStr (dec now)) (Some 300)\<rparr>)"
  using assms
  by (simp add: validateCryptoPayment_def structurally_valid_def cache_gate_def
      redis_get_def redis_set_def redis_incr_def upstash_get_def upstash_set_def)

text \<open>
  C9. With the Upstash REST client, \<^verbatim>\<open>redis.incr\<close> and \<^verbatim>\<open>redis.expire\<close> do not exist
  and calling them throws a \<^verbatim>\<open>TypeError\<close>; the middleware's \<^verbatim>\<open>catch\<close> swallows it.
  No sequence of requests, from any cache state, is ever answered with the rate-limit
  response, and a structurally valid request whose hash is not locked goes on to the
  handler.
\<close>

theorem upstash_rest_never_rate_limits:
  assumes "client r = UpstashRedisRestClient"
  shows "redis_incr r now k = Inl (TypeError ''redis.incr is not a function'') \<and>
         redis_expire r now k s = Inl (TypeError ''redis.expire is not a function'') \<and>
         Respond too_many_requests \<notin> set (fst (serve_all isAddress reqs r)) \<and>
         (reachable r \<and> structurally_valid isAddress req \<and>
          \<not> truthy (server_get (entries r) now (processing_key (transactionHash req)))
          \<longrightarrow> fst (validateCryptoPayment isAddress req now r) = Next)"
  using assms rest_serve_all [OF assms] rest_proceeds [of r isAddress req now]
  by (simp add: redis_incr_def redis_expire_def)

theorem upstash_rest_never_rate_limits_witness:
  "redis_incr (empty_cache UpstashRedisRestClient) 1000 (wallet_key sample_wallet) =
     Inl (TypeError ''redis.incr is not a function'') \<and>
   redis_expire (empty_cache UpstashRedisRestClient) 1000 (wallet_key sample_wallet) 60 =
     Inl (TypeError ''redis.expire is not a function'') \<and>
   Respond too_many_requests \<notin>
     set (fst (serve_all sample_isAddress eleven_requests (empty_cache UpstashRedisRestClient))) \<and>
   fst (validateCryptoPayment sample_isAddress sample_request 1000
          (empty_cache UpstashRedisRestClient)) = Next"
  using sample_request_valid
    upstash_rest_never_rate_limits [of "empty_cache UpstashRedisRestClient" 1000
      "wallet_key sample_wallet" 60 sample_isAddress eleven_requests sample_request]
  by (simp add: empty_cache_def server_get_def server_lookup_def)

section \<open>The in-flight lock\<close>

lemma cache_gate_is_mw_run:
  "mw_run req now r = (Finished (fst (cache_gate req now r)), snd (cache_gate req now r))"
  by (auto simp: mw_run_def cache_gate_def limit_check_def split: sum.splits prod.splits)

lemma redis_get_total:
  assumes "reachable r \<or> client r = MemoryMock"
  shows "\<exists>v. redis_get r now k = Inr v"
  using assms by (cases "client r") (auto simp: client_defs)

lemma redis_set_total:
  assumes "reachable r \<or> client r = MemoryMock"
  shows "\<exists>r'. redis_set r now k v ex = Inr r'"
  using assms by (cases "client r") (auto simp: client_defs)

lemma cache_gate_lock:
  assumes run: "cache_gate req now r = (res, r')"
    and passed: "res \<noteq> Respond already_being_processed"
    and up: "reachable r \<or> client r = MemoryMock"
  shows "entries r' (processing_key (transactionHash req)) =
           Some (RStr (dec now), if client r = MemoryMock then None else Some (now + 300000))"
proof -
  let ?lock = "processing_key (transactionHash req)"
  let ?wallet = "wallet_key (walletAddress req)"
  from redis_get_total [OF up] obtain cachedTx where get: "redis_get r now ?lock = Inr cachedTx"
    by blast
  from run passed get have unlocked: "\<not> truthy cachedTx"
    by (auto simp: cache_gate_def)
  from redis_set_total [OF up] obtain r1 where
    set: "redis_set r now ?lock (RStr (dec now)) (Some 300) = Inr r1"
    by blast
  from redis_set_entry [OF set] have e1:
    "entries r1 ?lock = Some (RStr (dec now), if client r = MemoryMock then None else Some (now + 300000))"
    by simp
  show ?thesis
  proof (cases "redis_incr r1 now ?wallet")
    case (Inl e)
    with run get unlocked set e1 show ?thesis by (simp add: cache_gate_def)
  next
    case (Inr p)
    then obtain n r2 where incr: "redis_incr r1 now ?wallet = Inr (n, r2)" by (cases p) simp
    from redis_incr_frame(3) [OF incr, of ?lock] keys_distinct e1
    have e2: "entries r2 ?lock = Some (RStr (dec now), if client r = MemoryMock then None else Some (now + 300000))"
      by simp
    show ?thesis
    proof (cases "n = 1")
      case False
      with run get unlocked set incr e2 show ?thesis
        by (auto simp: cache_gate_def split: if_splits)
    next
      case one: True
      show ?thesis
      proof (cases "redis_expire r2 now ?wallet 60")
        case (Inl e)
        with run get unlocked set incr one e2 show ?thesis by (auto simp: cache_gate_def)
      next
        case (Inr r3)
        from redis_expire_frame(3) [OF Inr, of ?lock] keys_distinct e2
        have "entries r3 ?lock = Some (RStr (dec now), if client r = MemoryMock then None else Some (now + 300000))"
          by simp
        with run get unlocked set incr one Inr show ?thesis by (auto simp: cache_gate_def)
      qed
    qed
  qed
qed

lemma validate_is_gate:
  assumes "structurally_valid isAddress req"
  shows "validateCryptoPayment isAddress req now r = cache_gate req now r"
  using assms by (simp add: validateCryptoPayment_def structurally_valid_def)

lemma locked_is_rejected:
  assumes "structurally_valid isAddress req"
    and "redis_get r now (processing_key (transactionHash req)) = Inr cachedTx"
    and "truthy cachedTx"
  shows "validateCryptoPayment isAddress req now r = (Respond already_being_processed, r)"
  using assms by (simp add: validate_is_gate cache_gate_def)

lemma sequential_exclusion:
  assumes vA: "structurally_valid isAddress reqA" and vB: "structurally_valid isAddress reqB"
    and same: "transactionHash reqB = transactionHash reqA"
    and up: "reachable r \<or> client r = MemoryMock"
    and runA: "validateCryptoPayment isAddress reqA t1 r = (resA, r1)"
    and passed: "resA \<noteq> Respond already_being_processed"
    and t: "t1 \<le> t2" "t2 < t1 + 300000"
  shows "validateCryptoPayment isAddress reqB t2 r1 = (Respond already_being_processed, r1)"
proof -
  from runA vA have gate: "cache_gate reqA t1 r = (resA, r1)" by (simp add: validate_is_gate)
  note lock = cache_gate_lock [OF gate passed up]
  from cache_gate_frame [OF gate] have fr: "client r1 = client r" "reachable r1 = reachable r"
    by simp_all
  have "redis_get r1 t2 (processing_key (transactionHash reqB)) = Inr (Some (RStr (dec t1)))"
    using lock fr up t same by (cases "client r") (auto simp: client_defs)
  from locked_is_rejected [OF vB this] show ?thesis by (simp add: dec_nonempty)
qed

text \<open>
  C2 (amended). The lock is taken by two cache calls: a \<^verbatim>\<open>get\<close> of
  \<^verbatim>\<open>tx-processing:<hash>\<close>, which writes nothing, and then a separate \<^verbatim>\<open>set\<close> with
  \<^verbatim>\<open>'EX', 300\<close>, which stores the lock whatever the key held. The \<^verbatim>\<open>try\<close> block is
  exactly the run of these calls in order. Requests served one after another exclude each
  other: once a request has passed the gate on a reachable cache, a later request for the
  same hash within 300 seconds is answered 429 "Transaction is already being processed"
  and changes nothing.
\<close>

theorem lock_is_get_then_set:
  "mw_run req now r = (Finished (fst (cache_gate req now r)), snd (cache_gate req now r)) \<and>
   snd (mw_step req now AwaitGet r) = r \<and>
   (reachable r \<or> client r = MemoryMock \<longrightarrow>
      (\<exists>r1. mw_step req now AwaitSet r = (AwaitIncr, r1) \<and>
         entries r1 (processing_key (transactionHash req)) =
           Some (RStr (dec now), if client r = MemoryMock then None else Some (now + 300000)))) \<and>
   (structurally_valid isAddress reqA \<and> structurally_valid isAddress reqB \<and>
    transactionHash reqB = transactionHash reqA \<and>
    (reachable r \<or> client r = MemoryMock) \<and>
    validateCryptoPayment isAddress reqA t1 r = (resA, r1) \<and>
    resA \<noteq> Respond already_being_processed \<and> t1 \<le> t2 \<and> t2 < t1 + 300000 \<longrightarrow>
      validateCryptoPayment isAddress reqB t2 r1 = (Respond already_being_processed, r1))"
proof (intro conjI)
  show "mw_run req now r = (Finished (fst (cache_gate req now r)), snd (cache_gate req now r))"
    by (rule cache_gate_is_mw_run)
  show "snd (mw_step req now AwaitGet r) = r"
    by (simp split: sum.splits)
  show "reachable r \<or> client r = MemoryMock \<longrightarrow>
      (\<exists>r1. mw_step req now AwaitSet r = (AwaitIncr, r1) \<and>
         entries r1 (processing_key (transactionHash req)) =
           Some (RStr (dec now), if client r = MemoryMock then None else Some (now + 300000)))"
  proof
    assume up: "reachable r \<or> client r = MemoryMock"
    from redis_set_total [OF up] obtain r1 where
      set: "redis_set r now (processing_key (transactionHash req)) (RStr (dec now)) (Some 300) = Inr r1"
      by blast
    from redis_set_entry [OF set] set
    show "\<exists>r1. mw_step req now AwaitSet r = (AwaitIncr, r1) \<and>
         entries r1 (processing_key (transactionHash req)) =
           Some (RStr (dec now), if client r = MemoryMock then None else Some (now + 300000))"
      by simp
  qed
  show "structurally_valid isAddress reqA \<and> structurally_valid isAddress reqB \<and>
    transactionHash reqB = transactionHash reqA \<and>
    (reachable r \<or> client r = MemoryMock) \<and>
    validateCryptoPayment isAddress reqA t1 r = (resA, r1) \<and>
    resA \<noteq> Respond already_being_processed \<and> t1 \<le> t2 \<and> t2 < t1 + 300000 \<longrightarrow>
      validateCryptoPayment isAddress reqB t2 r1 = (Respond already_being_processed, r1)"
    using sequential_exclusion [of isAddress reqA reqB r t1 resA r1 t2] by blast
qed

theorem lock_is_get_then_set_witness:
  "validateCryptoPayment sample_isAddress sample_request 1000 (empty_cache IoRedis) =
     (Next, snd (validateCryptoPayment sample_isAddress sample_request 1000 (empty_cache IoRedis))) \<and>
   validateCryptoPayment sample_isAddress sample_request 2000
       (snd (validateCryptoPayment sample_isAddress sample_request 1000 (empty_cache IoRedis))) =
     (Respond already_being_processed,
      snd (validateCryptoPayment sample_isAddress sample_request 1000 (empty_cache IoRedis))) \<and>
   fst (mw_step sample_request 1000 AwaitSet (empty_cache IoRedis)) = AwaitIncr"
proof -
  have first: "validateCryptoPayment sample_isAddress sample_request 1000 (empty_cache IoRedis) =
     (Next, snd (validateCryptoPayment sample_isAddress sample_request 1000 (empty_cache IoRedis)))"
    by (simp add: sample_defs middleware_defs client_defs)
  have up: "reachable (empty_cache IoRedis) \<or> client (empty_cache IoRedis) = MemoryMock"
    by (simp add: empty_cache_def)
  have ne: "Next \<noteq> Respond already_being_processed" by simp
  have t: "(1000::nat) \<le> 2000 \<and> (2000::nat) < 1000 + 300000" by simp
  from lock_is_get_then_set [of sample_request 1000 "empty_cache IoRedis" sample_isAddress
      sample_request sample_request 1000 Next
      "snd (validateCryptoPayment sample_isAddress sample_request 1000 (empty_cache IoRedis))" 2000]
    sample_request_valid first up ne t
  show ?thesis by auto
qed

text \<open>
  The specification's sentence fails as written: when the cache calls of two requests for the same hash
  alternate, both read the key before either writes it, and both pass the gate and go on
  to the handler.
\<close>

theorem interleaved_requests_both_pass:
  "transactionHash sample_request = sample_hash \<and>
   pc_first (interleave sample_request sample_request 1000
      [First, Second, First, Second, First, Second, First]
      \<lparr>pc_first = AwaitGet, pc_second = AwaitGet, shared = empty_cache IoRedis\<rparr>) = Finished Next \<and>
   pc_second (interleave sample_request sample_request 1000
      [First, Second, First, Second, First, Second, First]
      \<lparr>pc_first = AwaitGet, pc_second = AwaitGet, shared = empty_cache IoRedis\<rparr>) = Finished Next"
  by (simp add: sample_defs processing_key_def wallet_key_def client_defs limit_check_def)

lemma server_lock_expires:
  assumes vA: "structurally_valid isAddress reqA" and vB: "structurally_valid isAddress reqB"
    and same: "transactionHash reqB = transactionHash reqA"
    and up: "reachable r" and srv: "client r \<noteq> MemoryMock"
    and runA: "validateCryptoPayment isAddress reqA t1 r = (resA, r1)"
    and passed: "resA \<noteq> Respond already_being_processed"
    and t: "t1 + 300000 \<le> t2"
  shows "fst (validateCryptoPayment isAddress reqB t2 r1) \<noteq> Respond already_being_processed"
proof -
  from runA vA have gate: "cache_gate reqA t1 r = (resA, r1)" by (simp add: validate_is_gate)
  from cache_gate_lock [OF gate passed] up srv have
    lock: "entries r1 (processing_key (transactionHash reqA)) = Some (RStr (dec t1), Some (t1 + 300000))"
    by simp
  from cache_gate_frame [OF gate] have fr: "client r1 = client r" "reachable r1 = reachable r"
    by simp_all
  have "redis_get r1 t2 (processing_key (transactionHash reqB)) = Inr None"
    using lock fr up srv t same by (cases "client r") (auto simp: client_defs)
  then show ?thesis
    by (auto simp: validate_is_gate [OF vB] cache_gate_def too_many_requests_def
        already_being_processed_def split: sum.splits prod.splits if_splits)
qed

lemma mock_lock_stays:
  assumes vA: "structurally_valid isAddress reqA" and vB: "structurally_valid isAddress reqB"
    and same: "transactionHash reqB = transactionHash reqA"
    and mock: "client r = MemoryMock"
    and runA: "validateCryptoPayment isAddress reqA t1 r = (resA, r1)"
    and passed: "resA \<noteq> Respond already_being_processed"
  shows "validateCryptoPayment isAddress reqB t2 r1 = (Respond already_being_processed, r1)"
proof -
  from runA vA have gate: "cache_gate reqA t1 r = (resA, r1)" by (simp add: validate_is_gate)
  from cache_gate_lock [OF gate passed] mock have
    lock: "entries r1 (processing_key (transactionHash reqA)) = Some (RStr (dec t1), None)"
    by simp
  from cache_gate_frame [OF gate] mock have "client r1 = MemoryMock" by simp
  with lock same have "redis_get r1 t2 (processing_key (transactionHash reqB)) = Inr (Some (RStr (dec t1)))"
    by (simp add: redis_get_def mock_get_def)
  from locked_is_rejected [OF vB this] show ?thesis by (simp add: dec_nonempty)
qed

text \<open>
  C6. On the Upstash REST client and on ioredis the lock is stored with a 300-second expiry
  and no longer blocks once 300 seconds have passed (\<open>server_lock_expires\<close>). The in-memory
  fallback stores it without expiry and blocks every later request for the hash
  (\<open>mock_lock_stays\<close>). Evaluated: with the fallback, the sample request passes at clock
  reading 1000 and the same hash is still rejected 301 seconds later, where ioredis lets it
  through.
\<close>

theorem memory_mock_lock_outlives_300s:
  "fst (validateCryptoPayment sample_isAddress sample_request 1000 (empty_cache MemoryMock)) = Next \<and>
   fst (validateCryptoPayment sample_isAddress sample_request 302000
          (snd (validateCryptoPayment sample_isAddress sample_request 1000 (empty_cache MemoryMock)))) =
     Respond already_being_processed \<and>
   fst (validateCryptoPayment sample_isAddress sample_request 302000
          (snd (validateCryptoPayment sample_isAddress sample_request 1000 (empty_cache IoRedis)))) =
     Next"
  by (simp add: sample_defs middleware_defs client_defs dec_nonempty)

section \<open>The rate-limit boundary\<close>

lemma ioredis_counts:
  assumes "client r = IoRedis" and "reachable r" and "structurally_valid isAddress req"
    and "\<not> truthy (server_get (entries r) now (processing_key (transactionHash req)))"
    and "server_lookup (entries r) now (wallet_key (walletAddress req)) = Some (RInt n, e)"
  shows "fst (validateCryptoPayment isAddress req now r) =
           (if n + 1 > 10 then Respond too_many_requests else Next)"
  using assms keys_distinct(2) [of "walletAddress req" "transactionHash req"]
  by (simp add: validate_is_gate cache_gate_def redis_get_def redis_set_def redis_incr_def
      redis_expire_def ioredis_get_def ioredis_set_def ioredis_incr_def ioredis_expire_def
      server_incr_def server_set_def server_lookup_def)

lemma ioredis_eleventh_rejected:
  "fst (serve_all sample_isAddress eleven_requests (empty_cache IoRedis)) =
     [Next, Next, Next, Next, Next, Next, Next, Next, Next, Next, Respond too_many_requests]"
  by (simp add: eleven_requests_def request_for_def hash_ending_def sample_defs
      middleware_defs client_defs)

text \<open>
  C5. With ioredis the boundary is where the specification puts it: a request that finds the
  wallet's counter at \<open>n\<close> is rejected exactly when \<open>n + 1 > 10\<close> (\<open>ioredis_counts\<close>), and
  of eleven requests within the window the first ten pass and the eleventh is answered 429
  with \<^verbatim>\<open>retryAfter: 60\<close> (\<open>ioredis_eleventh_rejected\<close>). Evaluated on the Upstash REST
  client, the same eleven requests all pass.
\<close>

theorem rest_client_eleventh_request_passes:
  "fst (serve_all sample_isAddress eleven_requests (empty_cache UpstashRedisRestClient)) =
     [Next, Next, Next, Next, Next, Next, Next, Next, Next, Next, Next]"
  by (simp add: eleven_requests_def request_for_def hash_ending_def sample_defs
      middleware_defs client_defs)

end
